theory Spec2Isabelle
  imports Complex_Main
begin

section \<open>The store: rows of the five tables of \<^verbatim>\<open>server.js\<close>\<close>

text \<open>
  The tables are lists of rows, in the order of insertion. A \<^verbatim>\<open>SELECT ... get\<close> is the
  first row that matches, an \<^verbatim>\<open>UPDATE ... WHERE\<close> rewrites every row that matches, a
  \<^verbatim>\<open>DELETE ... WHERE\<close> drops every row that matches. A nullable column is an
  \<open>option\<close>, \<open>None\<close> being SQL's NULL. An amount (a \<^verbatim>\<open>REAL\<close> column, a JavaScript
  number) is the real number that the double denotes; the arithmetic on amounts rounds
  to the nearest double (section on JavaScript numbers).
  Columns that no operation below reads (airline, airports, times, duration, the
  flight's status and class list, the serialised passenger counts, a promotion's name
  and description) are left out of the rows.
\<close>

record flight =
  flight_id :: int
  airline_code :: string
  flight_number :: string
  price_economy :: real
  price_premium_economy :: "real option"
  price_business :: "real option"
  price_first :: "real option"
  seats_economy :: int
  seats_premium_economy :: "int option"
  seats_business :: "int option"
  seats_first :: "int option"
  available_seats :: int

record booking =
  booking_id :: string
  departure_flight_id :: int
  return_flight_id :: "int option"
  contact_name :: string
  email :: "string option"
  phone :: "string option"
  travel_class :: string
  total_amount :: real
  booking_time :: string
  payment_status :: string
  promo_code :: "string option"
  is_round_trip :: int

record booking_detail =
  bd_booking_id :: string
  full_name :: string
  gender :: string
  bd_dob :: "string option"
  passport_number :: string
  passenger_type :: string
  luggage_weight :: int
  insurance :: int
  meal :: int

record payment =
  pay_booking_id :: string
  pay_method :: string
  transaction_info :: "string option"

record promotion =
  promo_id :: int
  code :: string
  discount_type :: string
  discount_value :: real
  valid_from :: "string option"
  valid_to :: "string option"
  usage_limit :: "int option"
  used_count :: int
  status :: string

record db =
  flights :: "flight list"
  bookings :: "booking list"
  booking_details :: "booking_detail list"
  payments :: "payment list"
  promotions :: "promotion list"

section \<open>Requests\<close>

text \<open>
  A string field of a request that the handler reads only through a truthiness test
  (\<^verbatim>\<open>x || default\<close>, \<^verbatim>\<open>if (x)\<close>) is a \<open>string\<close>, the empty string standing for an
  absent field as well: JavaScript treats both alike there. A field whose absence is
  told apart from the empty string (it is bound to a NOT NULL column) is an \<open>option\<close>.
\<close>

record passenger =
  fullName :: string
  passengerType :: string
  ptype :: string
  dob :: string
  pgender :: string
  idNumber :: string
  p_passport_number :: string
  passportNumber :: string
  calculatedPassengerType :: string

record customer_info =
  ci_fullName :: "string option"
  ci_email :: "string option"
  ci_phone :: "string option"
  seatClass :: string

record services =
  luggage :: bool
  s_insurance :: bool
  s_meal :: bool
  food :: bool

text \<open>
  A flight reference of a request is a JSON number or a JSON string. For a string,
  \<open>RefStr k s\<close> carries with the text \<open>s\<close> the integer \<open>k\<close> that it denotes, if it
  denotes one: \<^verbatim>\<open>isNaN\<close> and the numeric affinity of the \<^verbatim>\<open>flight_id\<close> column decide
  that, not the handler.
\<close>

datatype flight_ref = RefNum int | RefStr "int option" string

record request =
  departureFlightId :: "flight_ref option"
  returnFlightId :: "flight_ref option"
  isRoundTrip :: bool
  customerInfo :: "customer_info option"
  passengers :: "passenger list"
  selectedServices :: "services option"
  promoCode :: string
  totalAmount :: "real option"
  paymentMethod :: string
  transactionInfo :: string

text \<open>
  What a run of a handler takes from outside the store: the clock, the parser of
  \<^verbatim>\<open>new Date(string)\<close> (\<open>None\<close> is an invalid date), the tokens that
  \<^verbatim>\<open>generateBookingId\<close> draws, in order, and the error, if any, that the store raises
  on the insertion of the passenger row of a given index. The other statements fail
  only where a constraint of the schema says so. The case mappings
  \<^verbatim>\<open>String.prototype.toUpperCase\<close> and \<^verbatim>\<open>toLowerCase\<close> of JavaScript, which follow the
  Unicode tables, are taken from outside as well.
\<close>

record env =
  today :: string
  now_iso :: string
  now_ms :: int
  parse_date :: "string \<Rightarrow> int option"
  id_candidates :: "string list"
  detail_insert_error :: "nat \<Rightarrow> string option"
  toUpperCase :: "string \<Rightarrow> string"
  toLowerCase :: "string \<Rightarrow> string"

section \<open>Strings\<close>

text \<open>\<^verbatim>\<open>a || b\<close> on strings: the empty string is falsy.\<close>

definition or_else :: "string \<Rightarrow> string \<Rightarrow> string" where
  "or_else a b = (if a \<noteq> [] then a else b)"

text \<open>SQLite's comparison of two TEXT values (byte by byte, a proper prefix is smaller).\<close>

fun text_le :: "string \<Rightarrow> string \<Rightarrow> bool" where
  "text_le [] ys = True"
| "text_le (x # xs) [] = False"
| "text_le (x # xs) (y # ys) =
     (if x = y then text_le xs ys else (of_char x :: nat) < of_char y)"

section \<open>JavaScript numbers\<close>

text \<open>
  A finite double is a real of the form \<open>k * 2 ^ j\<close> with \<open>\<bar>k\<bar> < 2 ^ 53\<close>. Each
  arithmetic operation of JavaScript gives the double nearest to the exact result, a tie
  going to the even significand. \<open>normalise\<close> scales a positive real into
  \<open>[2 ^ 52, 2 ^ 53)\<close> by powers of two, within a number of steps that covers the
  exponent range of doubles; the rounding then takes the nearest integer there. The
  bounds of the exponent (overflow to infinity, subnormal numbers) and the values that
  are not numbers are not modelled.
\<close>

fun normalise :: "nat \<Rightarrow> real \<Rightarrow> real \<Rightarrow> real \<times> real" where
  "normalise 0 m s = (m, s)"
| "normalise (Suc k) m s =
     (if 2 ^ 53 \<le> m then normalise k (m / 2) (s * 2)
      else if m < 2 ^ 52 then normalise k (m * 2) (s / 2)
      else (m, s))"

definition round_half_even :: "real \<Rightarrow> int" where
  "round_half_even m =
     (let f = \<lfloor>m\<rfloor>; r = m - of_int f
      in if r < 1 / 2 then f else if 1 / 2 < r then f + 1
         else if even f then f else f + 1)"

definition double_round :: "real \<Rightarrow> real" where
  "double_round x =
     (if x = 0 then 0
      else let (m, s) = normalise 2200 \<bar>x\<bar> 1
           in sgn x * of_int (round_half_even m) * s)"

text \<open>\<^verbatim>\<open>x + y\<close>, \<^verbatim>\<open>x - y\<close>, \<^verbatim>\<open>x * y\<close> and \<^verbatim>\<open>x / y\<close> on numbers.\<close>

definition js_add :: "real \<Rightarrow> real \<Rightarrow> real" where
  "js_add x y = double_round (x + y)"

definition js_sub :: "real \<Rightarrow> real \<Rightarrow> real" where
  "js_sub x y = double_round (x - y)"

definition js_mul :: "real \<Rightarrow> real \<Rightarrow> real" where
  "js_mul x y = double_round (x * y)"

definition js_div :: "real \<Rightarrow> real \<Rightarrow> real" where
  "js_div x y = double_round (x / y)"

section \<open>Fare calculation\<close>

text \<open>
  \<^verbatim>\<open>getPriceMultiplierForPassengerType\<close>: \<^verbatim>\<open>multipliers[passengerType] || 1\<close>. Every
  caller passes an upper-cased string, which names no inherited property of the table.
  The literals \<^verbatim>\<open>0.75\<close> and \<^verbatim>\<open>0.1\<close> are the doubles nearest to them.
\<close>

definition multipliers :: "(string \<times> real) list" where
  "multipliers =
     [(''ADULT'', 1), (''CHILD'', double_round 0.75), (''INFANT'', double_round 0.1)]"

definition getPriceMultiplierForPassengerType :: "string \<Rightarrow> real" where
  "getPriceMultiplierForPassengerType t =
     (case map_of multipliers t of Some m \<Rightarrow> (if m \<noteq> 0 then m else 1) | None \<Rightarrow> 1)"

text \<open>
  \<^verbatim>\<open>determinePassengerTypeFromDOB\<close>: the age in years is the difference of the two
  instants in milliseconds over \<^verbatim>\<open>365.25 * 24 * 60 * 60 * 1000\<close>; an invalid date makes
  both comparisons false.
\<close>

definition msPerYear :: real where
  "msPerYear = js_mul (js_mul (js_mul (js_mul 365.25 24) 60) 60) 1000"

definition determinePassengerTypeFromDOB :: "env \<Rightarrow> string \<Rightarrow> string" where
  "determinePassengerTypeFromDOB e dobString =
     (if dobString = [] then ''ADULT''
      else case parse_date e dobString of
        None \<Rightarrow> ''ADULT''
      | Some d \<Rightarrow>
          (let ageInYears =
                 js_div (js_sub (real_of_int (now_ms e)) (real_of_int d)) msPerYear
           in if ageInYears < 2 then ''INFANT''
              else if ageInYears < 12 then ''CHILD''
              else ''ADULT''))"

text \<open>\<^verbatim>\<open>a || b\<close> on a nullable price: NULL and 0 are falsy.\<close>

definition price_or :: "real option \<Rightarrow> real \<Rightarrow> real" where
  "price_or p d = (case p of None \<Rightarrow> d | Some v \<Rightarrow> if v \<noteq> 0 then v else d)"

text \<open>The \<^verbatim>\<open>switch (seatClass)\<close> that selects the base price of a leg.\<close>

definition base_price :: "string \<Rightarrow> flight \<Rightarrow> real" where
  "base_price cls f =
     (if cls = ''PREMIUM_ECONOMY'' then price_or (price_premium_economy f) (price_economy f)
      else if cls = ''BUSINESS'' then price_or (price_business f) (price_economy f)
      else if cls = ''FIRST'' then price_or (price_first f) (price_economy f)
      else price_economy f)"

text \<open>
  The type the fare loop gives a passenger:
  \<^verbatim>\<open>passenger.passengerType || passenger.type || determinePassengerTypeFromDOB(passenger.dob) || 'ADULT'\<close>.
\<close>

definition fare_passenger_type :: "env \<Rightarrow> passenger \<Rightarrow> string" where
  "fare_passenger_type e p =
     or_else (passengerType p)
       (or_else (ptype p) (or_else (determinePassengerTypeFromDOB e (dob p)) ''ADULT''))"

text \<open>
  The first loop over the passengers: it adds each departure fare to the running
  amount and writes \<^verbatim>\<open>calculatedPassengerType\<close> into the passenger.
\<close>

fun departure_fare_loop ::
  "env \<Rightarrow> real \<Rightarrow> passenger list \<Rightarrow> real \<Rightarrow> real \<times> passenger list" where
  "departure_fare_loop e basePrice [] calculatedAmount = (calculatedAmount, [])"
| "departure_fare_loop e basePrice (p # ps) calculatedAmount =
     (let t = fare_passenger_type e p;
          passengerTypeMultiplier = getPriceMultiplierForPassengerType (toUpperCase e t);
          passengerPrice = js_mul basePrice passengerTypeMultiplier;
          (amount, ps') =
            departure_fare_loop e basePrice ps (js_add calculatedAmount passengerPrice)
      in (amount, p\<lparr>calculatedPassengerType := toUpperCase e t\<rparr> # ps'))"

text \<open>The second loop, run for a round trip: the return fares, by the type written before.\<close>

fun return_fare_loop :: "real \<Rightarrow> passenger list \<Rightarrow> real \<Rightarrow> real" where
  "return_fare_loop returnBasePrice [] calculatedAmount = calculatedAmount"
| "return_fare_loop returnBasePrice (p # ps) calculatedAmount =
     (let t = or_else (calculatedPassengerType p) ''ADULT'';
          passengerReturnPrice = js_mul returnBasePrice (getPriceMultiplierForPassengerType t)
      in return_fare_loop returnBasePrice ps (js_add calculatedAmount passengerReturnPrice))"

text \<open>
  The calculated branch up to \<^verbatim>\<open>finalAmount = calculatedAmount\<close>: the amount and the
  passengers as the first loop leaves them.
\<close>

definition calculate_amount ::
  "env \<Rightarrow> string \<Rightarrow> flight \<Rightarrow> bool \<Rightarrow> flight option \<Rightarrow> passenger list
     \<Rightarrow> real \<times> passenger list" where
  "calculate_amount e cls departureFlight roundTrip returnFlight ps =
     (let (amount, ps') = departure_fare_loop e (base_price cls departureFlight) ps 0
      in case returnFlight of
           Some rf \<Rightarrow>
             if roundTrip then (return_fare_loop (base_price cls rf) ps' amount, ps')
             else (amount, ps')
         | None \<Rightarrow> (amount, ps'))"

subsection \<open>The fare as the specification words it\<close>

text \<open>
  The multiplier of a passenger type: ADULT 1.0, CHILD 0.75, INFANT 0.10, as numbers of
  JavaScript; any other type 1.0.
\<close>

definition passengerMultiplier :: "string \<Rightarrow> real" where
  "passengerMultiplier t =
     (if t = ''ADULT'' then 1 else if t = ''CHILD'' then double_round 0.75
      else if t = ''INFANT'' then double_round 0.10 else 1)"

text \<open>
  The price of a fare class on a flight: the price of the class if the flight offers it
  (the price is there and is not 0), else the economy price. A class that is none of
  the four is economy.
\<close>

definition priceFor :: "flight \<Rightarrow> string \<Rightarrow> real" where
  "priceFor f fareClass =
     (let offered =
            (if fareClass = ''PREMIUM_ECONOMY'' then price_premium_economy f
             else if fareClass = ''BUSINESS'' then price_business f
             else if fareClass = ''FIRST'' then price_first f
             else None)
      in case offered of
           None \<Rightarrow> price_economy f
         | Some price \<Rightarrow> if price = 0 then price_economy f else price)"

text \<open>
  The type of a passenger: the explicit type if one is supplied (\<^verbatim>\<open>passengerType\<close>, else
  \<^verbatim>\<open>type\<close>), else the type of the age at booking time (under 2 years INFANT, under 12
  CHILD, else ADULT), ADULT without a date of birth that can be read; in upper case.
\<close>

definition classifyPassenger :: "env \<Rightarrow> passenger \<Rightarrow> string" where
  "classifyPassenger e p =
     toUpperCase e
       (if passengerType p \<noteq> [] then passengerType p
        else if ptype p \<noteq> [] then ptype p
        else case (if dob p = [] then None else parse_date e (dob p)) of
               None \<Rightarrow> ''ADULT''
             | Some born \<Rightarrow>
                 (let years = js_div (js_sub (real_of_int (now_ms e)) (real_of_int born))
                                (double_round 31557600000)
                  in if years < 2 then ''INFANT'' else if years < 12 then ''CHILD''
                     else ''ADULT''))"

text \<open>
  The running sum of the fares of one leg, from a starting amount: for each type in
  order, the base price times the multiplier is added, both operations on numbers.
\<close>

definition legFares :: "real \<Rightarrow> real \<Rightarrow> string list \<Rightarrow> real" where
  "legFares start basePricePerLeg types =
     foldl (\<lambda>amount t. js_add amount (js_mul basePricePerLeg (passengerMultiplier t)))
       start types"

text \<open>
  The sum as the claim words it, in exact arithmetic: the sum over the passengers of
  the base price times the multiplier, plus the same sum against the base price of the
  return leg.
\<close>

definition exactMultiplier :: "string \<Rightarrow> real" where
  "exactMultiplier t =
     (if t = ''ADULT'' then 1.0 else if t = ''CHILD'' then 0.75
      else if t = ''INFANT'' then 0.10 else 1.0)"

definition totalFare :: "string list \<Rightarrow> real \<Rightarrow> real option \<Rightarrow> real" where
  "totalFare types basePricePerLeg returnBasePricePerLeg =
     (\<Sum>t\<leftarrow>types. basePricePerLeg * exactMultiplier t)
     + (case returnBasePricePerLeg of
          None \<Rightarrow> 0
        | Some r \<Rightarrow> (\<Sum>t\<leftarrow>types. r * exactMultiplier t))"

section \<open>Seat inventory\<close>

datatype seat_field =
  seats_economy_field | seats_premium_economy_field | seats_business_field | seats_first_field

text \<open>The \<^verbatim>\<open>switch (seatClass)\<close> that names the seat column; any other class is economy.\<close>

definition seat_field_of :: "string \<Rightarrow> seat_field" where
  "seat_field_of cls =
     (if cls = ''PREMIUM_ECONOMY'' then seats_premium_economy_field
      else if cls = ''BUSINESS'' then seats_business_field
      else if cls = ''FIRST'' then seats_first_field
      else seats_economy_field)"

text \<open>\<^verbatim>\<open>flight[seatField]\<close>: the value of the column, NULL included.\<close>

definition seat_value :: "seat_field \<Rightarrow> flight \<Rightarrow> int option" where
  "seat_value fld f =
     (case fld of
        seats_economy_field \<Rightarrow> Some (seats_economy f)
      | seats_premium_economy_field \<Rightarrow> seats_premium_economy f
      | seats_business_field \<Rightarrow> seats_business f
      | seats_first_field \<Rightarrow> seats_first f)"

text \<open>\<^verbatim>\<open>seatValue < totalPassengers\<close>: JavaScript reads \<^verbatim>\<open>null\<close> as 0 here.\<close>

definition seats_lt :: "int option \<Rightarrow> int \<Rightarrow> bool" where
  "seats_lt seatValue totalPassengers =
     (case seatValue of None \<Rightarrow> 0 < totalPassengers | Some v \<Rightarrow> v < totalPassengers)"

text \<open>
  \<^verbatim>\<open>SET <seatField> = <seatField> + k, available_seats = available_seats + k\<close> on one
  row; in SQL, NULL plus a number is NULL.
\<close>

definition add_seats :: "seat_field \<Rightarrow> int \<Rightarrow> flight \<Rightarrow> flight" where
  "add_seats fld k f =
     (case fld of
        seats_economy_field \<Rightarrow>
          f\<lparr>seats_economy := seats_economy f + k, available_seats := available_seats f + k\<rparr>
      | seats_premium_economy_field \<Rightarrow>
          f\<lparr>seats_premium_economy := map_option (\<lambda>v. v + k) (seats_premium_economy f),
            available_seats := available_seats f + k\<rparr>
      | seats_business_field \<Rightarrow>
          f\<lparr>seats_business := map_option (\<lambda>v. v + k) (seats_business f),
            available_seats := available_seats f + k\<rparr>
      | seats_first_field \<Rightarrow>
          f\<lparr>seats_first := map_option (\<lambda>v. v + k) (seats_first f),
            available_seats := available_seats f + k\<rparr>)"

text \<open>
  The reservation of \<^verbatim>\<open>POST /api/bookings\<close>:
  \<^verbatim>\<open>UPDATE flights SET f = f - ?, available_seats = available_seats - ? WHERE flight_id = ?\<close>.
  The statement has no other condition.
\<close>

definition decrement_seats :: "seat_field \<Rightarrow> int \<Rightarrow> int \<Rightarrow> flight list \<Rightarrow> flight list" where
  "decrement_seats fld n fid fs =
     map (\<lambda>f. if flight_id f = fid then add_seats fld (- n) f else f) fs"

text \<open>
  The restoration of \<^verbatim>\<open>PATCH /api/bookings/:id/payment\<close>:
  \<^verbatim>\<open>UPDATE flights SET f = f + ?, available_seats = available_seats + ? WHERE flight_id = ?\<close>.
\<close>

definition increment_seats :: "seat_field \<Rightarrow> int \<Rightarrow> int \<Rightarrow> flight list \<Rightarrow> flight list" where
  "increment_seats fld n fid fs =
     map (\<lambda>f. if flight_id f = fid then add_seats fld n f else f) fs"

section \<open>Promotions\<close>

text \<open>
  The lookup of \<^verbatim>\<open>POST /api/bookings\<close>:
  \<^verbatim>\<open>WHERE code = ? AND used_count < usage_limit AND valid_from <= date("now") AND valid_to >= date("now")\<close>.
  A comparison with NULL is not true. \<open>today\<close> is the text that \<^verbatim>\<open>date("now")\<close> gives.
\<close>

definition usable_today :: "string \<Rightarrow> promotion \<Rightarrow> bool" where
  "usable_today day p =
     ((case usage_limit p of None \<Rightarrow> False | Some l \<Rightarrow> used_count p < l)
      \<and> (case valid_from p of None \<Rightarrow> False | Some f \<Rightarrow> text_le f day)
      \<and> (case valid_to p of None \<Rightarrow> False | Some t \<Rightarrow> text_le day t))"

definition find_usable_promo :: "string \<Rightarrow> string \<Rightarrow> promotion list \<Rightarrow> promotion option" where
  "find_usable_promo day c ps = find (\<lambda>p. code p = c \<and> usable_today day p) ps"

text \<open>\<^verbatim>\<open>UPDATE promotions SET used_count = used_count + 1 WHERE promo_id = ?\<close>.\<close>

definition increment_used_count :: "int \<Rightarrow> promotion list \<Rightarrow> promotion list" where
  "increment_used_count pid ps =
     map (\<lambda>p. if promo_id p = pid then p\<lparr>used_count := used_count p + 1\<rparr> else p) ps"

definition discount_applied :: "promotion \<Rightarrow> real \<Rightarrow> real" where
  "discount_applied promo calculatedAmount =
     (if discount_type promo = ''percent'' then
        js_mul calculatedAmount (js_div (discount_value promo) 100)
      else if discount_type promo = ''fixed'' then discount_value promo
      else 0)"

text \<open>
  The amount before \<^verbatim>\<open>Math.max(0, finalAmount)\<close>, with the passengers and the promotions
  table as this step leaves them. A total of the caller is taken as it is; only the
  calculated branch looks the promotion up.
\<close>

definition compute_amount ::
  "env \<Rightarrow> promotion list \<Rightarrow> request \<Rightarrow> string \<Rightarrow> flight \<Rightarrow> flight option
     \<Rightarrow> real \<times> passenger list \<times> promotion list" where
  "compute_amount e promos req cls departureFlight returnFlight =
     (case totalAmount req of
        Some t \<Rightarrow> (t, passengers req, promos)
      | None \<Rightarrow>
          (let (calculatedAmount, ps') =
                 calculate_amount e cls departureFlight (isRoundTrip req) returnFlight
                   (passengers req)
           in if promoCode req \<noteq> [] then
                (case find_usable_promo (today e) (promoCode req) promos of
                   Some promo \<Rightarrow>
                     (js_sub calculatedAmount (discount_applied promo calculatedAmount), ps',
                      increment_used_count (promo_id promo) promos)
                 | None \<Rightarrow> (calculatedAmount, ps', promos))
              else (calculatedAmount, ps', promos)))"

section \<open>\<^verbatim>\<open>POST /api/bookings\<close>\<close>

datatype leg = Departure | Return

text \<open>
  The responses of the handler, by HTTP status and error text. \<open>NotEnoughSeats\<close> keeps
  the leg that the error text names, the \<^verbatim>\<open>seatClass\<close>, \<^verbatim>\<open>available\<close> and
  \<^verbatim>\<open>requested\<close> of the body; \<open>InternalError\<close> keeps the \<^verbatim>\<open>details\<close>. The flight
  snapshot and the redirect address of the 201 body are left out.
\<close>

datatype response =
    MissingBookingInformation "string list"
  | DepartureFlightNotFound
  | ReturnFlightNotFound
  | NotEnoughSeats leg string "int option" int
  | PassengerMissingFields
  | BookingCreated string real
  | ConstraintError
  | InternalError string

definition ref_truthy :: "flight_ref option \<Rightarrow> bool" where
  "ref_truthy r =
     (case r of None \<Rightarrow> False | Some (RefNum k) \<Rightarrow> k \<noteq> 0 | Some (RefStr ko s) \<Rightarrow> s \<noteq> [])"

definition missing_fields :: "request \<Rightarrow> string list" where
  "missing_fields req =
     (if \<not> ref_truthy (departureFlightId req) then [''departureFlightId''] else [])
     @ (if customerInfo req = None then [''customerInfo''] else [])
     @ (if passengers req = [] then [''passengers''] else [])"

text \<open>
  The two lookups of a flight: by \<^verbatim>\<open>flight_id\<close> when the reference is numeric, then by
  \<^verbatim>\<open>airline_code || flight_number\<close>. A JSON number never equals the text of the second
  lookup.
\<close>

definition find_flight_by_id :: "flight list \<Rightarrow> int \<Rightarrow> flight option" where
  "find_flight_by_id fs k = find (\<lambda>f. flight_id f = k) fs"

definition find_flight_by_code :: "flight list \<Rightarrow> string \<Rightarrow> flight option" where
  "find_flight_by_code fs s = find (\<lambda>f. airline_code f @ flight_number f = s) fs"

definition resolve_flight :: "flight list \<Rightarrow> flight_ref \<Rightarrow> flight option" where
  "resolve_flight fs r =
     (case r of
        RefNum k \<Rightarrow> find_flight_by_id fs k
      | RefStr ko s \<Rightarrow>
          (case (case ko of Some k \<Rightarrow> find_flight_by_id fs k | None \<Rightarrow> None) of
             Some f \<Rightarrow> Some f
           | None \<Rightarrow> find_flight_by_code fs s))"

text \<open>The return flight is looked up only under \<^verbatim>\<open>finalIsRoundTrip && finalReturnFlightId\<close>.\<close>

definition resolve_return :: "flight list \<Rightarrow> request \<Rightarrow> response + flight option" where
  "resolve_return fs req =
     (if isRoundTrip req \<and> ref_truthy (returnFlightId req) then
        (case returnFlightId req of
           None \<Rightarrow> Inr None
         | Some r \<Rightarrow>
             (case resolve_flight fs r of
                None \<Rightarrow> Inl ReturnFlightNotFound
              | Some f \<Rightarrow> Inr (Some f)))
      else Inr None)"

text \<open>
  The \<^verbatim>\<open>while (!isUnique)\<close> loop: the first token drawn that no booking row has. The
  tokens drawn are a finite list; \<open>None\<close> says that the loop has not ended on them.
\<close>

definition generate_unique_id :: "booking list \<Rightarrow> string list \<Rightarrow> string option" where
  "generate_unique_id bs candidates =
     find (\<lambda>c. find (\<lambda>b. booking_id b = c) bs = None) candidates"

text \<open>The passenger type written to \<^verbatim>\<open>booking_details\<close>.\<close>

definition detail_passenger_type :: "env \<Rightarrow> passenger \<Rightarrow> string" where
  "detail_passenger_type e p =
     (if ptype p \<noteq> [] then
        (if toLowerCase e (ptype p) = ''adult'' then ''ADULT''
         else if toLowerCase e (ptype p) = ''child'' then ''CHILD''
         else if toLowerCase e (ptype p) = ''infant'' then ''INFANT''
         else ''ADULT'')
      else if passengerType p \<noteq> [] then toUpperCase e (passengerType p)
      else if calculatedPassengerType p \<noteq> [] then calculatedPassengerType p
      else or_else (determinePassengerTypeFromDOB e (dob p)) ''ADULT'')"

definition detail_row :: "env \<Rightarrow> services option \<Rightarrow> string \<Rightarrow> passenger \<Rightarrow> booking_detail" where
  "detail_row e sv bid p =
     \<lparr>bd_booking_id = bid,
      full_name = fullName p,
      gender = or_else (pgender p) ''UNKNOWN'',
      bd_dob = (if dob p \<noteq> [] then Some (dob p) else None),
      passport_number =
        or_else (idNumber p)
          (or_else (p_passport_number p) (or_else (passportNumber p) ''UNKNOWN_ID'')),
      passenger_type = detail_passenger_type e p,
      luggage_weight = (case sv of Some s \<Rightarrow> if luggage s then 23 else 0 | None \<Rightarrow> 0),
      insurance = (case sv of Some s \<Rightarrow> if s_insurance s then 1 else 0 | None \<Rightarrow> 0),
      meal = (case sv of Some s \<Rightarrow> if s_meal s \<or> food s then 1 else 0 | None \<Rightarrow> 0)\<rparr>"

text \<open>
  The loop that writes the passenger rows, from the passenger of index \<open>i\<close> on. A
  passenger without a name ends the request with a 400, the store as it is. An
  insertion that raises deletes the booking row (\<^verbatim>\<open>DELETE FROM bookings WHERE booking_id = ?\<close>)
  and raises \<^verbatim>\<open>Failed to save passenger details: <message>\<close>, which the handler's
  \<^verbatim>\<open>catch\<close> answers with a 500 carrying that text.
\<close>

fun insert_passengers ::
  "env \<Rightarrow> services option \<Rightarrow> string \<Rightarrow> nat \<Rightarrow> passenger list \<Rightarrow> db \<Rightarrow> response option \<times> db" where
  "insert_passengers e sv bid i [] d = (None, d)"
| "insert_passengers e sv bid i (p # ps) d =
     (if fullName p = [] then (Some PassengerMissingFields, d)
      else case detail_insert_error e i of
        Some msg \<Rightarrow>
          (Some (InternalError (''Failed to save passenger details: '' @ msg)),
           d\<lparr>bookings := filter (\<lambda>b. booking_id b \<noteq> bid) (bookings d)\<rparr>)
      | None \<Rightarrow>
          insert_passengers e sv bid (Suc i) ps
            (d\<lparr>booking_details := booking_details d @ [detail_row e sv bid p]\<rparr>))"

text \<open>The row that \<^verbatim>\<open>INSERT INTO payments\<close> writes for a method of the two that exist.\<close>

definition payment_row :: "string \<Rightarrow> request \<Rightarrow> payment" where
  "payment_row bid req =
     \<lparr>pay_booking_id = bid,
      pay_method = paymentMethod req,
      transaction_info =
        (if transactionInfo req \<noteq> [] then Some (transactionInfo req) else None)\<rparr>"

text \<open>The row that \<^verbatim>\<open>INSERT INTO bookings\<close> writes, for a contact name that is present.\<close>

definition booking_row ::
  "env \<Rightarrow> request \<Rightarrow> customer_info \<Rightarrow> string \<Rightarrow> flight \<Rightarrow> flight option \<Rightarrow> string \<Rightarrow> real
     \<Rightarrow> booking" where
  "booking_row e req ci name departureFlight returnFlight bid finalAmount =
     \<lparr>booking_id = bid,
      departure_flight_id = flight_id departureFlight,
      return_flight_id = (if isRoundTrip req then map_option flight_id returnFlight else None),
      contact_name = name,
      email = ci_email ci,
      phone = ci_phone ci,
      travel_class = or_else (seatClass ci) ''ECONOMY'',
      total_amount = finalAmount,
      booking_time = now_iso e,
      payment_status = ''unpaid'',
      promo_code = (if promoCode req \<noteq> [] then Some (promoCode req) else None),
      is_round_trip = (if isRoundTrip req then 1 else 0)\<rparr>"

text \<open>
  The insertions, after the seats are reserved. Building the booking row reads
  \<^verbatim>\<open>returnFlight.flight_id\<close> whenever the round-trip flag is set, which raises when no
  return flight was looked up; a missing contact name breaks the NOT NULL constraint of
  \<^verbatim>\<open>contact_name\<close>. Both are answered with a 500 and undo nothing. For a payment
  method that is neither \<^verbatim>\<open>bank_transfer\<close> nor \<^verbatim>\<open>momo\<close> the handler assigns
  \<^verbatim>\<open>'momo'\<close> to \<^verbatim>\<open>paymentMethod\<close>, a \<^verbatim>\<open>const\<close> of the destructuring at the head of
  the handler: the assignment raises, the answer is a 500, the booking and passenger
  rows stay and no payment row is written.
\<close>

definition persist_booking ::
  "env \<Rightarrow> db \<Rightarrow> request \<Rightarrow> customer_info \<Rightarrow> flight \<Rightarrow> flight option \<Rightarrow> string \<Rightarrow> real
     \<Rightarrow> passenger list \<Rightarrow> response \<times> db" where
  "persist_booking e d req ci departureFlight returnFlight bid finalAmount ps =
     (if isRoundTrip req \<and> returnFlight = None then
        (InternalError ''returnFlight is null'', d)
      else case ci_fullName ci of
        None \<Rightarrow> (ConstraintError, d)
      | Some name \<Rightarrow>
          (let row = booking_row e req ci name departureFlight returnFlight bid finalAmount;
               d1 = d\<lparr>bookings := bookings d @ [row]\<rparr>
           in case insert_passengers e (selectedServices req) bid 0 ps d1 of
                (Some r, d2) \<Rightarrow> (r, d2)
              | (None, d2) \<Rightarrow>
                  if paymentMethod req \<noteq> [] then
                    if paymentMethod req \<noteq> ''bank_transfer'' \<and> paymentMethod req \<noteq> ''momo''
                    then (InternalError ''Assignment to constant variable.'', d2)
                    else (BookingCreated bid finalAmount,
                          d2\<lparr>payments := payments d2 @ [payment_row bid req]\<rparr>)
                  else (BookingCreated bid finalAmount, d2)))"

text \<open>
  The two seat updates of the handler: the departure flight, then the return flight
  under \<^verbatim>\<open>finalIsRoundTrip && returnFlight\<close>.
\<close>

definition reserve_seats ::
  "request \<Rightarrow> string \<Rightarrow> flight \<Rightarrow> flight option \<Rightarrow> flight list \<Rightarrow> flight list" where
  "reserve_seats req cls departureFlight returnFlight fs =
     (let totalPassengers = int (length (passengers req));
          fs1 = decrement_seats (seat_field_of cls) totalPassengers (flight_id departureFlight) fs
      in case returnFlight of
           Some rf \<Rightarrow>
             if isRoundTrip req then
               decrement_seats (seat_field_of cls) totalPassengers (flight_id rf) fs1
             else fs1
         | None \<Rightarrow> fs1)"

text \<open>
  From the amount to the response: the amount (which may increment a promotion), the
  clamp \<^verbatim>\<open>Math.max(0, finalAmount)\<close>, the identifier, the seat updates, the
  insertions. \<open>None\<close> is a run whose identifier loop has not ended.
\<close>

definition price_and_persist ::
  "env \<Rightarrow> db \<Rightarrow> request \<Rightarrow> customer_info \<Rightarrow> flight \<Rightarrow> flight option
     \<Rightarrow> (response \<times> db) option" where
  "price_and_persist e d req ci departureFlight returnFlight =
     (let cls = or_else (seatClass ci) ''ECONOMY'';
          (amount, ps', promos') =
            compute_amount e (promotions d) req cls departureFlight returnFlight;
          finalAmount = max 0 amount;
          d1 = d\<lparr>promotions := promos'\<rparr>
      in case generate_unique_id (bookings d1) (id_candidates e) of
           None \<Rightarrow> None
         | Some bid \<Rightarrow>
             (let d2 = d1\<lparr>flights :=
                         reserve_seats req cls departureFlight returnFlight (flights d1)\<rparr>
              in Some (persist_booking e d2 req ci departureFlight returnFlight bid
                         finalAmount ps')))"

text \<open>The two availability checks, each answered with a 400 before anything is written.\<close>

definition book_resolved ::
  "env \<Rightarrow> db \<Rightarrow> request \<Rightarrow> customer_info \<Rightarrow> flight \<Rightarrow> flight option
     \<Rightarrow> (response \<times> db) option" where
  "book_resolved e d req ci departureFlight returnFlight =
     (let totalPassengers = int (length (passengers req));
          cls = or_else (seatClass ci) ''ECONOMY'';
          seatValue = seat_value (seat_field_of cls) departureFlight
      in if seats_lt seatValue totalPassengers then
           Some (NotEnoughSeats Departure cls seatValue totalPassengers, d)
         else case (if isRoundTrip req then returnFlight else None) of
           Some rf \<Rightarrow>
             (let returnSeatValue = seat_value (seat_field_of cls) rf
              in if seats_lt returnSeatValue totalPassengers then
                   Some (NotEnoughSeats Return cls returnSeatValue totalPassengers, d)
                 else price_and_persist e d req ci departureFlight returnFlight)
         | None \<Rightarrow> price_and_persist e d req ci departureFlight returnFlight)"

definition create_booking :: "env \<Rightarrow> db \<Rightarrow> request \<Rightarrow> (response \<times> db) option" where
  "create_booking e d req =
     (if missing_fields req \<noteq> [] then
        Some (MissingBookingInformation (missing_fields req), d)
      else case (departureFlightId req, customerInfo req) of
        (Some depRef, Some ci) \<Rightarrow>
          (case resolve_flight (flights d) depRef of
             None \<Rightarrow> Some (DepartureFlightNotFound, d)
           | Some departureFlight \<Rightarrow>
               (case resolve_return (flights d) req of
                  Inl r \<Rightarrow> Some (r, d)
                | Inr returnFlight \<Rightarrow> book_resolved e d req ci departureFlight returnFlight))
      | _ \<Rightarrow> Some (MissingBookingInformation (missing_fields req), d))"

section \<open>\<^verbatim>\<open>PATCH /api/bookings/:id/payment\<close>\<close>

datatype payment_response = PaymentStatusRequired | BookingNotFound | PaymentStatusUpdated

text \<open>The promotion step: only on a change to \<^verbatim>\<open>paid\<close> of a booking that has a promo code.\<close>

definition confirm_promo_usage :: "booking \<Rightarrow> string \<Rightarrow> promotion list \<Rightarrow> promotion list" where
  "confirm_promo_usage currentBooking paymentStatus promos =
     (case promo_code currentBooking of
        Some c \<Rightarrow>
          if paymentStatus = ''paid'' \<and> payment_status currentBooking \<noteq> ''paid'' \<and> c \<noteq> [] then
            (case find (\<lambda>p. code p = c) promos of
               Some promo \<Rightarrow> increment_used_count (promo_id promo) promos
             | None \<Rightarrow> promos)
          else promos
      | None \<Rightarrow> promos)"

text \<open>
  The seat step: only on a change to \<^verbatim>\<open>cancelled\<close> or \<^verbatim>\<open>refunded\<close> from \<^verbatim>\<open>paid\<close> or
  \<^verbatim>\<open>unpaid\<close>. The count is \<^verbatim>\<open>SELECT COUNT(*) FROM booking_details WHERE booking_id = ?\<close>;
  the return flight is updated under
  \<^verbatim>\<open>is_round_trip === 1 && return_flight_id\<close>.
\<close>

definition passenger_count :: "string \<Rightarrow> booking_detail list \<Rightarrow> int" where
  "passenger_count bid ds = int (length (filter (\<lambda>r. bd_booking_id r = bid) ds))"

definition restores_seats :: "booking \<Rightarrow> string \<Rightarrow> bool" where
  "restores_seats currentBooking paymentStatus =
     ((paymentStatus = ''cancelled'' \<or> paymentStatus = ''refunded'')
      \<and> (payment_status currentBooking = ''paid'' \<or> payment_status currentBooking = ''unpaid''))"

definition restore_seats :: "booking \<Rightarrow> int \<Rightarrow> flight list \<Rightarrow> flight list" where
  "restore_seats currentBooking n fs =
     (let seatField = seat_field_of (or_else (travel_class currentBooking) ''ECONOMY'');
          fs1 = increment_seats seatField n (departure_flight_id currentBooking) fs
      in case return_flight_id currentBooking of
           Some rid \<Rightarrow>
             if is_round_trip currentBooking = 1 \<and> rid \<noteq> 0 then
               increment_seats seatField n rid fs1
             else fs1
         | None \<Rightarrow> fs1)"

definition update_payment_status :: "db \<Rightarrow> string \<Rightarrow> string \<Rightarrow> payment_response \<times> db" where
  "update_payment_status d bookingId paymentStatus =
     (if paymentStatus = [] then (PaymentStatusRequired, d)
      else case find (\<lambda>b. booking_id b = bookingId) (bookings d) of
        None \<Rightarrow> (BookingNotFound, d)
      | Some currentBooking \<Rightarrow>
          (let d1 = d\<lparr>promotions := confirm_promo_usage currentBooking paymentStatus (promotions d)\<rparr>;
               d2 = (if restores_seats currentBooking paymentStatus then
                       d1\<lparr>flights :=
                            restore_seats currentBooking
                              (passenger_count bookingId (booking_details d1)) (flights d1)\<rparr>
                     else d1);
               changes = length (filter (\<lambda>b. booking_id b = bookingId) (bookings d2));
               d3 = d2\<lparr>bookings :=
                         map (\<lambda>b. if booking_id b = bookingId
                                   then b\<lparr>payment_status := paymentStatus\<rparr> else b)
                           (bookings d2)\<rparr>
           in if changes = 0 then (BookingNotFound, d3) else (PaymentStatusUpdated, d3)))"

section \<open>\<^verbatim>\<open>POST /api/promotions/validate\<close>\<close>

text \<open>
  The responses: a 400 without a code; three 404, told apart by their text
  (\<^verbatim>\<open>Invalid or inactive promotion code\<close>, \<^verbatim>\<open>Promotion code is not valid yet\<close>,
  \<^verbatim>\<open>Promotion code has expired\<close>); the 200 with the code, discount type, discount
  value and status of the promotion.
\<close>

datatype validate_response =
    PromotionCodeRequired
  | InvalidOrInactiveCode
  | NotValidYet
  | HasExpired
  | ValidPromo string string real string

text \<open>
  \<^verbatim>\<open>new Date(column)\<close>: NULL gives the epoch, a text is parsed. A comparison of two
  dates is one of their instants, and is false when either is invalid.
\<close>

definition js_date :: "env \<Rightarrow> string option \<Rightarrow> int option" where
  "js_date e col = (case col of None \<Rightarrow> Some 0 | Some s \<Rightarrow> parse_date e s)"

definition date_lt :: "int option \<Rightarrow> int option \<Rightarrow> bool" where
  "date_lt a b = (case (a, b) of (Some x, Some y) \<Rightarrow> x < y | _ \<Rightarrow> False)"

text \<open>
  The lookup:
  \<^verbatim>\<open>WHERE code = ? AND status != "inactive" AND used_count < usage_limit\<close>.
\<close>

definition find_active_promo :: "string \<Rightarrow> promotion list \<Rightarrow> promotion option" where
  "find_active_promo c ps =
     find (\<lambda>p. code p = c \<and> status p \<noteq> ''inactive''
               \<and> (case usage_limit p of None \<Rightarrow> False | Some l \<Rightarrow> used_count p < l)) ps"

definition validate_promotion :: "env \<Rightarrow> db \<Rightarrow> string \<Rightarrow> validate_response" where
  "validate_promotion e d c =
     (if c = [] then PromotionCodeRequired
      else case find_active_promo c (promotions d) of
        None \<Rightarrow> InvalidOrInactiveCode
      | Some promo \<Rightarrow>
          (let currentDate = Some (now_ms e);
               validFrom = js_date e (valid_from promo);
               validTo = js_date e (valid_to promo)
           in if date_lt currentDate validFrom then NotValidYet
              else if date_lt validTo currentDate then HasExpired
              else ValidPromo (code promo) (discount_type promo) (discount_value promo)
                     (status promo)))"

section \<open>A sample store and sample requests\<close>

text \<open>The case mappings on the letters of ASCII, where the samples stay.\<close>

definition lower_letters :: string where
  "lower_letters = ''abcdefghijklmnopqrstuvwxyz''"

definition upper_letters :: string where
  "upper_letters = ''ABCDEFGHIJKLMNOPQRSTUVWXYZ''"

definition ascii_upper :: "string \<Rightarrow> string" where
  "ascii_upper s =
     map (\<lambda>c. case map_of (zip lower_letters upper_letters) c of Some u \<Rightarrow> u | None \<Rightarrow> c) s"

definition ascii_lower :: "string \<Rightarrow> string" where
  "ascii_lower s =
     map (\<lambda>c. case map_of (zip upper_letters lower_letters) c of Some l \<Rightarrow> l | None \<Rightarrow> c) s"

definition sample_env :: env where
  "sample_env =
     \<lparr>today = ''2025-06-15'', now_iso = ''2025-06-15T08:00:00.000Z'', now_ms = 1749974400000,
      parse_date = (\<lambda>s. None), id_candidates = [''AB12CD34EF''],
      detail_insert_error = (\<lambda>i. None), toUpperCase = ascii_upper,
      toLowerCase = ascii_lower\<rparr>"

definition sample_flight :: "int \<Rightarrow> int \<Rightarrow> flight" where
  "sample_flight k seats =
     \<lparr>flight_id = k, airline_code = ''VN'', flight_number = ''10'',
      price_economy = 1000000, price_premium_economy = None, price_business = Some 2500000,
      price_first = None, seats_economy = seats, seats_premium_economy = None,
      seats_business = Some 4, seats_first = None, available_seats = seats + 4\<rparr>"

definition sample_db :: db where
  "sample_db =
     \<lparr>flights = [sample_flight 1 3, sample_flight 2 10], bookings = [], booking_details = [],
      payments = [], promotions = []\<rparr>"

definition adult :: "string \<Rightarrow> passenger" where
  "adult name =
     \<lparr>fullName = name, passengerType = ''ADULT'', ptype = [], dob = [], pgender = [],
      idNumber = [], p_passport_number = [], passportNumber = [],
      calculatedPassengerType = []\<rparr>"

definition sample_customer :: customer_info where
  "sample_customer =
     \<lparr>ci_fullName = Some ''An'', ci_email = None, ci_phone = None, seatClass = ''ECONOMY''\<rparr>"

definition one_way_request :: "int \<Rightarrow> passenger list \<Rightarrow> request" where
  "one_way_request k ps =
     \<lparr>departureFlightId = Some (RefNum k), returnFlightId = None, isRoundTrip = False,
      customerInfo = Some sample_customer, passengers = ps, selectedServices = None,
      promoCode = [], totalAmount = None, paymentMethod = [], transactionInfo = []\<rparr>"

definition round_trip_request :: "int \<Rightarrow> int \<Rightarrow> passenger list \<Rightarrow> request" where
  "round_trip_request k r ps =
     (one_way_request k ps)\<lparr>returnFlightId := Some (RefNum r), isRoundTrip := True\<rparr>"

definition welcome10 :: promotion where
  "welcome10 =
     \<lparr>promo_id = 2, code = ''WELCOME10'', discount_type = ''percent'', discount_value = 10,
      valid_from = Some ''2025-01-01'', valid_to = Some ''2025-12-31'', usage_limit = Some 500,
      used_count = 7, status = ''active''\<rparr>"

definition fixed200k :: promotion where
  "fixed200k =
     \<lparr>promo_id = 3, code = ''FIXED200K'', discount_type = ''fixed'', discount_value = 200000,
      valid_from = Some ''2025-05-01'', valid_to = Some ''2025-07-31'', usage_limit = Some 50,
      used_count = 0, status = ''active''\<rparr>"

definition promo_db :: db where
  "promo_db = sample_db\<lparr>promotions := [welcome10, fixed200k]\<rparr>"

definition priced_request :: "real option \<Rightarrow> string \<Rightarrow> request" where
  "priced_request given promo =
     (one_way_request 2 [adult ''A'', adult ''B''])\<lparr>totalAmount := given, promoCode := promo\<rparr>"

definition failing_env :: env where
  "failing_env =
     sample_env\<lparr>detail_insert_error :=
       (\<lambda>i. if i = 1 then Some ''SQLITE_FULL: database or disk is full'' else None)\<rparr>"

section \<open>The aggregate seat count\<close>

text \<open>
  \<^verbatim>\<open>total_seats\<close> of \<^verbatim>\<open>POST /api/flights\<close>, which writes it to \<^verbatim>\<open>available_seats\<close>:
  \<^verbatim>\<open>(seats_economy || 0) + (seats_premium_economy || 0) + (seats_business || 0) + (seats_first || 0)\<close>.
\<close>

definition total_seats :: "flight \<Rightarrow> int" where
  "total_seats f =
     seats_economy f
     + (case seats_premium_economy f of None \<Rightarrow> 0 | Some v \<Rightarrow> v)
     + (case seats_business f of None \<Rightarrow> 0 | Some v \<Rightarrow> v)
     + (case seats_first f of None \<Rightarrow> 0 | Some v \<Rightarrow> v)"

text \<open>The invariant of the specification: the aggregate is the sum of the class counts.\<close>

definition seats_in_sync :: "flight \<Rightarrow> bool" where
  "seats_in_sync f \<longleftrightarrow> available_seats f = total_seats f"

text \<open>
  The number of legs of a booking that a flight serves, as the seat step of the payment
  handler reads them: the departure flight, and the return flight under
  \<^verbatim>\<open>is_round_trip === 1 && return_flight_id\<close>.
\<close>

definition legs_served :: "booking \<Rightarrow> flight \<Rightarrow> int" where
  "legs_served b f =
     (if flight_id f = departure_flight_id b then 1 else 0)
     + (if is_round_trip b = 1 \<and> return_flight_id b = Some (flight_id f) \<and> flight_id f \<noteq> 0
        then 1 else 0)"

section \<open>A sample store with a booking\<close>

definition sample_booking :: booking where
  "sample_booking =
     \<lparr>booking_id = ''RT12345678'', departure_flight_id = 2, return_flight_id = Some 1,
      contact_name = ''An'', email = None, phone = None, travel_class = ''ECONOMY'',
      total_amount = 3600000, booking_time = ''2025-06-14T08:00:00.000Z'',
      payment_status = ''unpaid'', promo_code = Some ''WELCOME10'', is_round_trip = 1\<rparr>"

definition sample_detail :: "string \<Rightarrow> booking_detail" where
  "sample_detail name =
     \<lparr>bd_booking_id = ''RT12345678'', full_name = name, gender = ''UNKNOWN'', bd_dob = None,
      passport_number = ''UNKNOWN_ID'', passenger_type = ''ADULT'', luggage_weight = 0,
      insurance = 0, meal = 0\<rparr>"

definition booked_db :: db where
  "booked_db =
     \<lparr>flights = [sample_flight 1 1, sample_flight 2 8], bookings = [sample_booking],
      booking_details = [sample_detail ''A'', sample_detail ''B''], payments = [],
      promotions = [welcome10, fixed200k]\<rparr>"

text \<open>
  The same booking in business class on a flight that has since lost its business
  seat count (\<^verbatim>\<open>PUT /api/flights/code/:flightCode\<close> without \<^verbatim>\<open>seats_business\<close>
  writes NULL).
\<close>

definition withdrawn_flight :: flight where
  "withdrawn_flight = (sample_flight 1 10)\<lparr>seats_business := None, available_seats := 10\<rparr>"

definition withdrawn_db :: db where
  "withdrawn_db =
     booked_db\<lparr>flights := [withdrawn_flight],
       bookings := [sample_booking\<lparr>departure_flight_id := 1, return_flight_id := None,
                      travel_class := ''BUSINESS'', payment_status := ''paid'',
                      is_round_trip := 0\<rparr>]\<rparr>"

text \<open>A clock and a date parser for the sample promotions; a promotion used up.\<close>

definition dated_env :: "int \<Rightarrow> env" where
  "dated_env now =
     sample_env\<lparr>now_ms := now,
       parse_date :=
         (\<lambda>s. if s = ''2025-01-01'' then Some 1735689600000
              else if s = ''2025-12-31'' then Some 1767139200000
              else None)\<rparr>"

definition used_up :: promotion where
  "used_up = welcome10\<lparr>promo_id := 4, code := ''LAST1'', usage_limit := Some 1, used_count := 1\<rparr>"

definition validate_db :: db where
  "validate_db = sample_db\<lparr>promotions := [welcome10, used_up]\<rparr>"

text \<open>A flight with a given economy price, and an infant.\<close>

definition priced_flight :: "real \<Rightarrow> flight" where
  "priced_flight price = (sample_flight 1 10)\<lparr>price_economy := price\<rparr>"

definition infant :: "string \<Rightarrow> passenger" where
  "infant name = (adult name)\<lparr>passengerType := ''infant''\<rparr>"

text \<open>
  Two promotions on which the lookup of the booking handler and the validate endpoint
  part: one without a start date, one that is inactive.
\<close>

definition undated10 :: promotion where
  "undated10 = welcome10\<lparr>promo_id := 5, code := ''OPEN10'', valid_from := None\<rparr>"

definition paused10 :: promotion where
  "paused10 = welcome10\<lparr>promo_id := 6, code := ''PAUSED10'', status := ''inactive''\<rparr>"

definition lookup_db :: db where
  "lookup_db = sample_db\<lparr>promotions := [undated10, paused10]\<rparr>"

section \<open>Properties of the numbers\<close>

lemma pow_pos_factor:
  fixes m :: real
  assumes "2 ^ 52 \<le> m * 2 ^ j"
  shows "0 < m"
proof (rule ccontr)
  assume "\<not> 0 < m"
  then have "m * 2 ^ j \<le> 0" by (simp add: mult_le_0_iff)
  with assms show False by simp
qed

lemma normalise_up:
  "2 ^ 52 \<le> m * 2 ^ j \<Longrightarrow> m * 2 ^ j < 2 ^ 53 \<Longrightarrow> j \<le> k \<Longrightarrow>
     normalise k m s = (m * 2 ^ j, s / 2 ^ j)"
proof (induction j arbitrary: k m s)
  case 0
  then show ?case by (cases k) simp_all
next
  case (Suc j)
  then obtain k' where k: "k = Suc k'" "j \<le> k'" by (cases k) auto
  have pos: "0 < m" using Suc.prems(1) by (rule pow_pos_factor)
  have "(1::real) \<le> 2 ^ j" by simp
  with pos have "m * 1 \<le> m * 2 ^ j" by (intro mult_left_mono) simp_all
  then have "m * 2 \<le> m * 2 ^ Suc j" by simp
  with Suc.prems(2) have small: "m < 2 ^ 52" by simp
  from Suc.prems have "2 ^ 52 \<le> (m * 2) * 2 ^ j" "(m * 2) * 2 ^ j < 2 ^ 53"
    by (simp_all add: mult.assoc)
  from Suc.IH[OF this k(2), of "s / 2"] small k show ?case
    by (simp add: mult.assoc)
qed

text \<open>
  The rounding of a number whose scaling is known: with \<open>\<bar>x\<bar> * 2 ^ j\<close> in
  \<open>[2 ^ 52, 2 ^ 53)\<close>, the double nearest to \<open>x\<close> is the nearest integer to
  \<open>\<bar>x\<bar> * 2 ^ j\<close>, scaled back.
\<close>

lemma double_round_up:
  assumes "x \<noteq> 0" "2 ^ 52 \<le> \<bar>x\<bar> * 2 ^ j" "\<bar>x\<bar> * 2 ^ j < 2 ^ 53" "j \<le> 2200"
  shows "double_round x = sgn x * of_int (round_half_even (\<bar>x\<bar> * 2 ^ j)) / 2 ^ j"
  using assms(1) normalise_up[OF assms(2,3,4), of 1] by (simp add: double_round_def)

lemma round_half_even_of_int: "round_half_even (of_int i) = i"
  by (simp add: round_half_even_def)

lemma shift_exists:
  fixes m :: real
  shows "2 ^ 52 \<le> m * 2 ^ n \<Longrightarrow> m < 2 ^ 53 \<Longrightarrow>
           \<exists>j\<le>n. 2 ^ 52 \<le> m * 2 ^ j \<and> m * 2 ^ j < 2 ^ 53"
proof (induction n arbitrary: m)
  case 0
  then show ?case by simp
next
  case (Suc n)
  show ?case
  proof (cases "2 ^ 52 \<le> m")
    case True
    with Suc.prems(2) show ?thesis by (intro exI[of _ 0]) simp
  next
    case False
    then have "m * 2 < 2 ^ 53" by simp
    moreover from Suc.prems(1) have "2 ^ 52 \<le> (m * 2) * 2 ^ n" by (simp add: mult.assoc)
    ultimately obtain j where "j \<le> n" "2 ^ 52 \<le> (m * 2) * 2 ^ j" "(m * 2) * 2 ^ j < 2 ^ 53"
      using Suc.IH by blast
    then show ?thesis by (intro exI[of _ "Suc j"]) (simp add: mult.assoc)
  qed
qed

text \<open>An integer below \<open>2 ^ 53\<close> in absolute value is a double.\<close>

lemma double_round_of_int:
  assumes "\<bar>i\<bar> < 2 ^ 53"
  shows "double_round (of_int i) = of_int i"
proof (cases "i = 0")
  case True
  then show ?thesis by (simp add: double_round_def)
next
  case False
  define m :: real where "m = of_int \<bar>i\<bar>"
  have abs: "\<bar>of_int i :: real\<bar> = m" by (simp add: m_def)
  from False have "1 \<le> \<bar>i\<bar>" by simp
  then have "(1::real) \<le> m" unfolding m_def by linarith
  then have lo: "2 ^ 52 \<le> m * 2 ^ 52" by simp
  from assms have "of_int \<bar>i\<bar> < (of_int (2 ^ 53) :: real)"
    by (simp only: of_int_less_iff)
  then have hi: "m < 2 ^ 53" by (simp add: m_def)
  from shift_exists[OF lo hi] obtain j where
    j: "j \<le> 52" "2 ^ 52 \<le> m * 2 ^ j" "m * 2 ^ j < 2 ^ 53" by blast
  have nz: "(of_int i :: real) \<noteq> 0" using False by simp
  have "m * 2 ^ j = of_int (\<bar>i\<bar> * 2 ^ j)" by (simp add: m_def)
  then have r: "round_half_even (m * 2 ^ j) = \<bar>i\<bar> * 2 ^ j"
    by (simp only: round_half_even_of_int)
  from j(1) have "j \<le> 2200" by simp
  from double_round_up[OF nz j(2,3)[folded abs] this] r
  have "double_round (of_int i) = sgn (of_int i) * of_int (\<bar>i\<bar> * 2 ^ j) / 2 ^ j"
    by (simp add: abs)
  also have "\<dots> = sgn (of_int i :: real) * of_int \<bar>i\<bar>" by simp
  also have "\<dots> = of_int i" by (simp add: sgn_real_def)
  finally show ?thesis .
qed

lemma double_round_numeral:
  "numeral n < (2::int) ^ 53 \<Longrightarrow> double_round (numeral n) = numeral n"
  "numeral n < (2::int) ^ 53 \<Longrightarrow> double_round (- numeral n) = - numeral n"
  "double_round 0 = 0" "double_round 1 = 1"
  using double_round_of_int[of "numeral n"] double_round_of_int[of "- numeral n"]
    double_round_of_int[of 0] double_round_of_int[of 1]
  by simp_all

lemma double_tenth: "double_round (1 / 10) = 3602879701896397 / 36028797018963968"
  by (simp add: double_round_up[where j = 56] round_half_even_def)

lemma double_three_quarters: "double_round (3 / 4) = 3 / 4"
  by (simp add: double_round_up[where j = 53] round_half_even_def)

lemmas js_arith = js_add_def js_sub_def js_mul_def js_div_def double_round_numeral
  double_tenth double_three_quarters

lemma msPerYear_value: "msPerYear = 31557600000" "double_round 31557600000 = 31557600000"
  by (simp_all add: msPerYear_def js_arith)

section \<open>Properties of the fare calculation\<close>

lemma multiplier_as_specified:
  "getPriceMultiplierForPassengerType t = passengerMultiplier t"
  by (simp add: getPriceMultiplierForPassengerType_def passengerMultiplier_def multipliers_def
      js_arith)

lemma base_price_as_specified: "base_price cls f = priceFor f cls"
  by (simp add: base_price_def priceFor_def price_or_def split: option.splits)

lemma fare_type_as_specified:
  "toUpperCase e (fare_passenger_type e p) = classifyPassenger e p"
  by (simp add: fare_passenger_type_def classifyPassenger_def or_else_def
      determinePassengerTypeFromDOB_def msPerYear_value Let_def split: option.splits)

lemma multiplier_of_absent_type:
  "passengerMultiplier (or_else t ''ADULT'') = passengerMultiplier t"
  by (simp add: or_else_def passengerMultiplier_def)

lemma legFares_step:
  "legFares start b (t # types) =
     legFares (js_add start (js_mul b (passengerMultiplier t))) b types"
  by (simp add: legFares_def)

lemma departure_fare_loop_amount:
  "fst (departure_fare_loop e b ps acc) = legFares acc b (map (classifyPassenger e) ps)"
proof (induction ps arbitrary: acc)
  case Nil
  show ?case by (simp add: legFares_def)
next
  case (Cons p ps)
  then show ?case
    by (simp add: Let_def split_beta multiplier_as_specified fare_type_as_specified
        legFares_step)
qed

lemma departure_fare_loop_passengers:
  "snd (departure_fare_loop e b ps acc) =
     map (\<lambda>p. p\<lparr>calculatedPassengerType := classifyPassenger e p\<rparr>) ps"
  by (induction ps arbitrary: acc)
     (simp_all add: Let_def split_beta fare_type_as_specified)

lemma return_fare_loop_amount:
  "return_fare_loop r (map (\<lambda>p. p\<lparr>calculatedPassengerType := classifyPassenger e p\<rparr>) ps) acc
     = legFares acc r (map (classifyPassenger e) ps)"
proof (induction ps arbitrary: acc)
  case Nil
  show ?case by (simp add: legFares_def)
next
  case (Cons p ps)
  then show ?case
    by (simp add: Let_def multiplier_as_specified multiplier_of_absent_type legFares_step)
qed

lemma infant_round_trip_steps:
  "js_mul 1234567 1 = 1234567"
  "js_add 0 1234567 = 1234567"
  "js_mul 1234567 (3602879701896397 / 36028797018963968) = 2120969955888333 / 17179869184"
  "js_add 1234567 (2120969955888333 / 17179869184) = 5832667378692915 / 4294967296"
  "js_add (5832667378692915 / 4294967296) 1234567 = 2783773067103437 / 1073741824"
  "js_add (2783773067103437 / 1073741824) (2120969955888333 / 17179869184)
     = 1458166844673229 / 536870912"
  "js_add (5832667378692915 / 4294967296) (5832667378692915 / 4294967296)
     = 5832667378692915 / 2147483648"
  by (simp_all add: js_arith double_round_up[where j = 31] double_round_up[where j = 32]
      double_round_up[where j = 36] round_half_even_def)

text \<open>
  Claim C3, as the code has it. The amount is a running sum of doubles, each product
  and each addition rounded. For an adult and an infant on a round trip whose two
  flights cost 1234567, the code arrives at 2716047.4000000004. The sum of the claim is
  2716047.4 in exact arithmetic, and adding the sums of the two legs, each taken apart
  in the same rounded arithmetic, gives the double 2716047.4: the code's amount is
  neither.
\<close>

theorem calculated_amount_is_not_the_exact_sum:
  "fst (calculate_amount sample_env ''ECONOMY'' (priced_flight 1234567) True
          (Some (priced_flight 1234567)) [adult ''A'', infant ''B''])
     = 1458166844673229 / 536870912
   \<and> totalFare [''ADULT'', ''INFANT''] 1234567 (Some 1234567) = 13580237 / 5
   \<and> js_add (legFares 0 1234567 [''ADULT'', ''INFANT''])
        (legFares 0 1234567 [''ADULT'', ''INFANT'']) = 5832667378692915 / 2147483648
   \<and> (1458166844673229 / 536870912 :: real) \<noteq> 13580237 / 5
   \<and> (1458166844673229 / 536870912 :: real) \<noteq> 5832667378692915 / 2147483648"
proof -
  have code: "fst (calculate_amount sample_env ''ECONOMY'' (priced_flight 1234567) True
          (Some (priced_flight 1234567)) [adult ''A'', infant ''B''])
     = 1458166844673229 / 536870912"
    by (simp add: calculate_amount_def base_price_def priced_flight_def sample_flight_def
      adult_def infant_def fare_passenger_type_def or_else_def sample_env_def ascii_upper_def
      lower_letters_def upper_letters_def getPriceMultiplierForPassengerType_def
      multipliers_def double_tenth double_three_quarters infant_round_trip_steps Let_def)
  have exact: "totalFare [''ADULT'', ''INFANT''] 1234567 (Some 1234567) = 13580237 / 5"
    by (simp add: totalFare_def exactMultiplier_def)
  have apart: "js_add (legFares 0 1234567 [''ADULT'', ''INFANT''])
        (legFares 0 1234567 [''ADULT'', ''INFANT'']) = 5832667378692915 / 2147483648"
    by (simp add: legFares_def passengerMultiplier_def double_tenth infant_round_trip_steps)
  from code exact apart show ?thesis by simp
qed

text \<open>
  Claim C3, amended. When the caller supplies no total, the amount that the handler
  calculates is the running sum, in the arithmetic of JavaScript numbers (each product
  and each addition rounded to the nearest double) and in the order of the passengers,
  of the base price of the departure flight times the multiplier of the passenger's
  type, carried on over the passengers against the base price of the return flight
  when the booking is a round trip with a return flight. The multipliers are 1 for
  ADULT, 0.75 for CHILD, the double nearest to 0.1 for INFANT and 1 for any other type;
  the base price of a flight is the price of the selected class when it is there and
  not 0, else the economy price; the type of a passenger is the explicit type if
  supplied, else the type of the age, else ADULT, in upper case.
\<close>

theorem calculated_amount_is_running_fare:
  "fst (calculate_amount e cls departureFlight roundTrip returnFlight ps) =
     (let types = map (classifyPassenger e) ps;
          departure = legFares 0 (priceFor departureFlight cls) types
      in case returnFlight of
           Some rf \<Rightarrow> if roundTrip then legFares departure (priceFor rf cls) types
                      else departure
         | None \<Rightarrow> departure)"
  by (cases returnFlight)
     (simp_all add: calculate_amount_def split_beta Let_def base_price_as_specified
        departure_fare_loop_amount departure_fare_loop_passengers return_fare_loop_amount)

lemma infant_fare_step:
  "js_mul 1000000 (3602879701896397 / 36028797018963968) = 100000"
  by (simp add: js_mul_def double_round_up[where j = 36] round_half_even_def)

theorem calculated_amount_is_running_fare_witness:
  "fst (calculate_amount sample_env ''BUSINESS'' (priced_flight 1000000) False None
          [adult ''A'', (adult ''B'')\<lparr>passengerType := ''Child''\<rparr>, infant ''C''])
     = 4625000
   \<and> fst (calculate_amount sample_env ''ECONOMY'' ((priced_flight 1000000)) True
            (Some (priced_flight 1000000))
            [adult ''A'', (adult ''B'')\<lparr>passengerType := ''Child''\<rparr>, infant ''C''])
     = 3700000"
proof -
  let ?ps = "[adult ''A'', (adult ''B'')\<lparr>passengerType := ''Child''\<rparr>, infant ''C'']"
  have types: "classifyPassenger sample_env (adult ''A'') = ''ADULT''"
    "classifyPassenger sample_env ((adult ''B'')\<lparr>passengerType := ''Child''\<rparr>) = ''CHILD''"
    "classifyPassenger sample_env (infant ''C'') = ''INFANT''"
    by (simp_all add: classifyPassenger_def adult_def infant_def sample_env_def ascii_upper_def
        lower_letters_def upper_letters_def)
  have prices: "priceFor (priced_flight 1000000) ''BUSINESS'' = 2500000"
    "priceFor (priced_flight 1000000) ''ECONOMY'' = 1000000"
    by (simp_all add: priceFor_def sample_flight_def priced_flight_def)
  have business: "legFares 0 2500000 [''ADULT'', ''CHILD'', ''INFANT''] = 4625000"
    by (simp add: legFares_def passengerMultiplier_def js_arith
        double_round_up[where j = 35] round_half_even_def)
  have economy: "legFares 0 1000000 [''ADULT'', ''CHILD'', ''INFANT''] = 1850000"
    "legFares 1850000 1000000 [''ADULT'', ''CHILD'', ''INFANT''] = 3700000"
    by (simp_all add: legFares_def passengerMultiplier_def double_tenth double_three_quarters
        double_round_numeral js_add_def infant_fare_step)
       (simp_all add: js_mul_def double_round_numeral)
  from calculated_amount_is_running_fare[of sample_env "''BUSINESS''" "priced_flight 1000000"
      False None ?ps]
    calculated_amount_is_running_fare[of sample_env "''ECONOMY''" "priced_flight 1000000"
      True "Some (priced_flight 1000000)" ?ps]
  show ?thesis
    by (simp add: types prices business economy Let_def)
qed

section \<open>Properties of booking creation\<close>

lemma create_booking_reaches:
  assumes "missing_fields req = []"
    and "departureFlightId req = Some depRef"
    and "customerInfo req = Some ci"
    and "resolve_flight (flights d) depRef = Some departureFlight"
    and "resolve_return (flights d) req = Inr returnFlight"
  shows "create_booking e d req = book_resolved e d req ci departureFlight returnFlight"
  using assms by (simp add: create_booking_def)

text \<open>
  Claim C1. Take a request that has its required fields and whose flights are found.
  If the seat count of the requested class on the departure flight is less than the
  number of passengers (a NULL count reads as 0), the call answers with the
  not-enough-seats error of the departure leg, which carries that count and the
  number requested; if the departure flight has enough seats and, for a round trip,
  the return flight has not, it answers with the error of the return leg. In both
  cases the store that comes back is the store that went in: no seat count, booking,
  passenger row, payment or promotion has changed.
\<close>

theorem insufficient_seats_rejected:
  assumes "missing_fields req = []"
    and "departureFlightId req = Some depRef"
    and "customerInfo req = Some ci"
    and "resolve_flight (flights d) depRef = Some departureFlight"
    and "resolve_return (flights d) req = Inr returnFlight"
    and "cls = or_else (seatClass ci) ''ECONOMY''"
    and "n = int (length (passengers req))"
  shows
    "(seats_lt (seat_value (seat_field_of cls) departureFlight) n \<longrightarrow>
        create_booking e d req =
          Some (NotEnoughSeats Departure cls (seat_value (seat_field_of cls) departureFlight) n, d))
     \<and> (\<not> seats_lt (seat_value (seat_field_of cls) departureFlight) n \<and> isRoundTrip req
          \<and> returnFlight = Some rf \<and> seats_lt (seat_value (seat_field_of cls) rf) n \<longrightarrow>
        create_booking e d req =
          Some (NotEnoughSeats Return cls (seat_value (seat_field_of cls) rf) n, d))"
  using assms
  by (simp add: create_booking_reaches[OF assms(1-5)] book_resolved_def Let_def)

theorem insufficient_seats_rejected_witness:
  "create_booking sample_env sample_db
       (one_way_request 1 (map adult [''A'', ''B'', ''C'', ''D'', ''E'']))
     = Some (NotEnoughSeats Departure ''ECONOMY'' (Some 3) 5, sample_db)
   \<and> create_booking sample_env sample_db
       (round_trip_request 2 1 (map adult [''A'', ''B'', ''C'', ''D'', ''E'']))
     = Some (NotEnoughSeats Return ''ECONOMY'' (Some 3) 5, sample_db)"
proof -
  let ?ps = "map adult [''A'', ''B'', ''C'', ''D'', ''E'']"
  let ?r1 = "one_way_request 1 ?ps"
  let ?r2 = "round_trip_request 2 1 ?ps"
  let ?sv = "seat_value (seat_field_of ''ECONOMY'')"
  have a: "seats_lt (?sv (sample_flight 1 3)) 5 \<longrightarrow>
        create_booking sample_env sample_db ?r1 =
          Some (NotEnoughSeats Departure ''ECONOMY'' (?sv (sample_flight 1 3)) 5, sample_db)"
    using insufficient_seats_rejected[of ?r1 "RefNum 1" sample_customer sample_db
        "sample_flight 1 3" None "''ECONOMY''" 5 sample_env]
    by (simp add: one_way_request_def missing_fields_def ref_truthy_def sample_customer_def
        sample_db_def resolve_flight_def find_flight_by_id_def sample_flight_def
        resolve_return_def or_else_def)
  have b: "\<not> seats_lt (?sv (sample_flight 2 10)) 5 \<and> isRoundTrip ?r2
          \<and> Some (sample_flight 1 3) = Some (sample_flight 1 3)
          \<and> seats_lt (?sv (sample_flight 1 3)) 5 \<longrightarrow>
        create_booking sample_env sample_db ?r2 =
          Some (NotEnoughSeats Return ''ECONOMY'' (?sv (sample_flight 1 3)) 5, sample_db)"
    using insufficient_seats_rejected[of ?r2 "RefNum 2" sample_customer sample_db
        "sample_flight 2 10" "Some (sample_flight 1 3)" "''ECONOMY''" 5 sample_env
        "sample_flight 1 3"]
    by (simp add: round_trip_request_def one_way_request_def missing_fields_def ref_truthy_def
        sample_customer_def sample_db_def resolve_flight_def find_flight_by_id_def
        sample_flight_def resolve_return_def or_else_def)
  have c: "?sv (sample_flight 1 3) = Some 3" "?sv (sample_flight 2 10) = Some 10"
    by (simp_all add: seat_value_def seat_field_of_def sample_flight_def)
  have d: "isRoundTrip ?r2" by (simp add: round_trip_request_def)
  from a b c d show ?thesis by (simp add: seats_lt_def)
qed

lemma insert_passengers_frame:
  "insert_passengers e sv bid i ps d = (r, d') \<Longrightarrow>
     flights d' = flights d \<and> promotions d' = promotions d \<and> payments d' = payments d"
proof (induction ps arbitrary: i d)
  case Nil
  then show ?case by simp
next
  case (Cons p ps)
  show ?case
  proof (cases "fullName p = []")
    case True
    with Cons.prems show ?thesis by simp
  next
    case named: False
    show ?thesis
    proof (cases "detail_insert_error e i")
      case None
      with named Cons.prems
        Cons.IH[of "Suc i" "d\<lparr>booking_details := booking_details d @ [detail_row e sv bid p]\<rparr>"]
      show ?thesis by simp
    next
      case (Some msg)
      with named Cons.prems show ?thesis by auto
    qed
  qed
qed

lemma insert_passengers_done:
  "insert_passengers e sv bid i ps d = (None, d') \<Longrightarrow>
     bookings d' = bookings d \<and>
     booking_details d' = booking_details d @ map (detail_row e sv bid) ps"
proof (induction ps arbitrary: i d)
  case Nil
  then show ?case by simp
next
  case (Cons p ps)
  from Cons.prems have named: "fullName p \<noteq> []"
    by (auto split: if_splits)
  from Cons.prems named have ok: "detail_insert_error e i = None"
    by (auto split: option.splits)
  from Cons.prems named ok
    Cons.IH[of "Suc i" "d\<lparr>booking_details := booking_details d @ [detail_row e sv bid p]\<rparr>"]
  show ?case by simp
qed

lemma insert_passengers_raises:
  "k < length ps \<Longrightarrow>
   (\<forall>j<k. fullName (ps ! j) \<noteq> [] \<and> detail_insert_error e (i + j) = None) \<Longrightarrow>
   fullName (ps ! k) \<noteq> [] \<Longrightarrow>
   detail_insert_error e (i + k) = Some msg \<Longrightarrow>
   insert_passengers e sv bid i ps d =
     (Some (InternalError (''Failed to save passenger details: '' @ msg)),
      d\<lparr>booking_details := booking_details d @ map (detail_row e sv bid) (take k ps),
        bookings := filter (\<lambda>b. booking_id b \<noteq> bid) (bookings d)\<rparr>)"
proof (induction ps arbitrary: i k d)
  case Nil
  then show ?case by simp
next
  case (Cons p ps)
  show ?case
  proof (cases k)
    case 0
    with Cons.prems show ?thesis by simp
  next
    case (Suc k')
    from Cons.prems(2) Suc have here: "fullName p \<noteq> []" "detail_insert_error e i = None"
      by force+
    have rest: "\<forall>j<k'. fullName (ps ! j) \<noteq> [] \<and> detail_insert_error e (Suc i + j) = None"
      using Cons.prems(2) Suc by force
    from Cons.prems Suc have "k' < length ps" "fullName (ps ! k') \<noteq> []"
      "detail_insert_error e (Suc i + k') = Some msg" by simp_all
    from Cons.IH[OF this(1) rest this(2,3)] here Suc show ?thesis by simp
  qed
qed

lemma insert_passengers_not_created:
  "insert_passengers e sv bid i ps d = (Some r, d') \<Longrightarrow> r \<noteq> BookingCreated b a"
  by (induction ps arbitrary: i d) (auto split: if_splits option.splits)

lemma book_resolved_passes:
  assumes "\<not> seats_lt (seat_value (seat_field_of (or_else (seatClass ci) ''ECONOMY''))
              departureFlight) (int (length (passengers req)))"
    and "\<And>rf. isRoundTrip req \<Longrightarrow> returnFlight = Some rf \<Longrightarrow>
           \<not> seats_lt (seat_value (seat_field_of (or_else (seatClass ci) ''ECONOMY'')) rf)
               (int (length (passengers req)))"
  shows "book_resolved e d req ci departureFlight returnFlight =
           price_and_persist e d req ci departureFlight returnFlight"
  using assms by (cases returnFlight) (simp_all add: book_resolved_def Let_def)

lemma price_and_persist_runs:
  assumes "generate_unique_id (bookings d) (id_candidates e) = Some bid"
    and "compute_amount e (promotions d) req (or_else (seatClass ci) ''ECONOMY'')
           departureFlight returnFlight = (amount, ps', promos')"
  shows "price_and_persist e d req ci departureFlight returnFlight =
           Some (persist_booking e
                   (d\<lparr>promotions := promos',
                      flights := reserve_seats req (or_else (seatClass ci) ''ECONOMY'')
                                   departureFlight returnFlight (flights d)\<rparr>)
                   req ci departureFlight returnFlight bid (max 0 amount) ps')"
  using assms by (simp add: price_and_persist_def Let_def)

lemma price_and_persist_returns:
  assumes "price_and_persist e d req ci departureFlight returnFlight = Some (r, d')"
  obtains bid amount ps' promos' where
    "generate_unique_id (bookings d) (id_candidates e) = Some bid"
    "compute_amount e (promotions d) req (or_else (seatClass ci) ''ECONOMY'')
       departureFlight returnFlight = (amount, ps', promos')"
    "persist_booking e
       (d\<lparr>promotions := promos',
          flights := reserve_seats req (or_else (seatClass ci) ''ECONOMY'')
                       departureFlight returnFlight (flights d)\<rparr>)
       req ci departureFlight returnFlight bid (max 0 amount) ps' = (r, d')"
proof -
  obtain amount ps' promos' where
    c: "compute_amount e (promotions d) req (or_else (seatClass ci) ''ECONOMY'')
          departureFlight returnFlight = (amount, ps', promos')"
    by (metis prod_cases3)
  from assms c obtain bid where
    g: "generate_unique_id (bookings d) (id_candidates e) = Some bid"
    by (auto simp: price_and_persist_def Let_def split: option.splits)
  from assms price_and_persist_runs[OF g c] that[OF g c] show thesis by simp
qed

lemma persist_booking_frame:
  assumes "persist_booking e d req ci departureFlight returnFlight bid amt ps = (r, d')"
  shows "flights d' = flights d \<and> promotions d' = promotions d"
proof (cases "isRoundTrip req \<and> returnFlight = None")
  case True
  with assms show ?thesis by (simp add: persist_booking_def)
next
  case rt: False
  show ?thesis
  proof (cases "ci_fullName ci")
    case None
    with rt assms show ?thesis by (auto simp: persist_booking_def)
  next
    case (Some name)
    let ?d1 = "d\<lparr>bookings := bookings d @
                 [booking_row e req ci name departureFlight returnFlight bid amt]\<rparr>"
    obtain r2 d2 where
      ip: "insert_passengers e (selectedServices req) bid 0 ps ?d1 = (r2, d2)"
      by (cases "insert_passengers e (selectedServices req) bid 0 ps ?d1")
    from insert_passengers_frame[OF ip]
    have f: "flights d2 = flights d" "promotions d2 = promotions d" by simp_all
    from assms rt Some ip f show ?thesis
      by (cases r2) (auto simp: persist_booking_def Let_def split: if_splits)
  qed
qed

lemma persist_booking_created:
  assumes "persist_booking e d req ci departureFlight returnFlight bid amt ps =
             (BookingCreated b a, d')"
  shows "b = bid \<and> a = amt \<and>
         (\<exists>name. ci_fullName ci = Some name \<and>
            bookings d' = bookings d @
              [booking_row e req ci name departureFlight returnFlight bid amt]) \<and>
         booking_details d' =
           booking_details d @ map (detail_row e (selectedServices req) bid) ps"
proof -
  from assms have rt: "\<not> (isRoundTrip req \<and> returnFlight = None)"
    by (auto simp: persist_booking_def split: if_splits)
  from assms rt obtain name where name: "ci_fullName ci = Some name"
    by (cases "ci_fullName ci") (auto simp: persist_booking_def)
  let ?d1 = "d\<lparr>bookings := bookings d @
               [booking_row e req ci name departureFlight returnFlight bid amt]\<rparr>"
  obtain r2 d2 where
    ip: "insert_passengers e (selectedServices req) bid 0 ps ?d1 = (r2, d2)"
    by (cases "insert_passengers e (selectedServices req) bid 0 ps ?d1")
  have none: "r2 = None"
  proof (cases r2)
    case None
    then show ?thesis .
  next
    case (Some x)
    with assms rt name ip have "x = BookingCreated b a"
      by (auto simp: persist_booking_def Let_def)
    with ip Some insert_passengers_not_created show ?thesis by blast
  qed
  from insert_passengers_done[OF ip[unfolded none]]
  have kept: "bookings d2 = bookings ?d1"
    "booking_details d2 =
       booking_details ?d1 @ map (detail_row e (selectedServices req) bid) ps"
    by simp_all
  from assms rt name ip none kept show ?thesis
    by (auto simp: persist_booking_def Let_def split: if_splits)
qed

lemma create_booking_cases:
  assumes "create_booking e d req = Some (r, d')"
  shows "(d' = d \<and> (\<forall>b a. r \<noteq> BookingCreated b a))
         \<or> (\<exists>depRef ci departureFlight returnFlight.
               missing_fields req = [] \<and> departureFlightId req = Some depRef
               \<and> customerInfo req = Some ci
               \<and> resolve_flight (flights d) depRef = Some departureFlight
               \<and> resolve_return (flights d) req = Inr returnFlight
               \<and> \<not> seats_lt (seat_value (seat_field_of (or_else (seatClass ci) ''ECONOMY''))
                          departureFlight) (int (length (passengers req)))
               \<and> (\<forall>rf. isRoundTrip req \<and> returnFlight = Some rf \<longrightarrow>
                     \<not> seats_lt (seat_value (seat_field_of (or_else (seatClass ci) ''ECONOMY''))
                            rf) (int (length (passengers req))))
               \<and> price_and_persist e d req ci departureFlight returnFlight = Some (r, d'))"
proof (cases "missing_fields req = []")
  case False
  with assms show ?thesis by (auto simp: create_booking_def)
next
  case ok: True
  show ?thesis
  proof (cases "departureFlightId req")
    case None
    with assms ok show ?thesis by (auto simp: create_booking_def)
  next
    case dep: (Some depRef)
    show ?thesis
    proof (cases "customerInfo req")
      case None
      with assms ok dep show ?thesis by (auto simp: create_booking_def)
    next
      case ci: (Some ci)
      show ?thesis
      proof (cases "resolve_flight (flights d) depRef")
        case None
        with assms ok dep ci show ?thesis by (auto simp: create_booking_def)
      next
        case df: (Some departureFlight)
        show ?thesis
        proof (cases "resolve_return (flights d) req")
          case (Inl x)
          with assms ok dep ci df have "d' = d" "x = r"
            by (auto simp: create_booking_def)
          moreover from Inl have "x = ReturnFlightNotFound"
            by (auto simp: resolve_return_def split: if_splits option.splits)
          ultimately show ?thesis by simp
        next
          case rf: (Inr returnFlight)
          from assms create_booking_reaches[OF ok dep ci df rf]
          have br: "book_resolved e d req ci departureFlight returnFlight = Some (r, d')"
            by simp
          then have "(d' = d \<and> (\<forall>b a. r \<noteq> BookingCreated b a))
              \<or> (\<not> seats_lt (seat_value (seat_field_of (or_else (seatClass ci) ''ECONOMY''))
                          departureFlight) (int (length (passengers req)))
                 \<and> (\<forall>rf. isRoundTrip req \<and> returnFlight = Some rf \<longrightarrow>
                       \<not> seats_lt (seat_value (seat_field_of (or_else (seatClass ci) ''ECONOMY''))
                              rf) (int (length (passengers req))))
                 \<and> price_and_persist e d req ci departureFlight returnFlight = Some (r, d'))"
            by (auto simp: book_resolved_def Let_def split: if_splits option.splits)
          with ok dep ci df rf show ?thesis by blast
        qed
      qed
    qed
  qed
qed

lemmas sample_defs = sample_env_def sample_db_def sample_flight_def adult_def
  sample_customer_def one_way_request_def round_trip_request_def welcome10_def fixed200k_def
  promo_db_def ascii_upper_def ascii_lower_def lower_letters_def upper_letters_def

lemmas handler_defs = create_booking_def missing_fields_def ref_truthy_def resolve_flight_def
  find_flight_by_id_def find_flight_by_code_def resolve_return_def book_resolved_def
  or_else_def seat_value_def seat_field_of_def seats_lt_def price_and_persist_def
  compute_amount_def generate_unique_id_def reserve_seats_def decrement_seats_def
  add_seats_def persist_booking_def booking_row_def detail_row_def detail_passenger_type_def
  calculate_amount_def base_price_def price_or_def fare_passenger_type_def
  getPriceMultiplierForPassengerType_def multipliers_def find_usable_promo_def
  usable_today_def increment_used_count_def discount_applied_def payment_row_def
  determinePassengerTypeFromDOB_def js_arith

lemma run_with_store:
  "map_option fst run = Some r \<Longrightarrow> run = Some (r, snd (the run))"
  by (cases run) auto

text \<open>
  Claim C10. When the caller supplies a total, whatever the handler answers, the
  promotions table afterwards is the promotions table before (no usage count is
  incremented, whether or not the promo code is usable), and when the booking is
  created its row carries the promo code of the request (NULL if there is none).
\<close>

theorem explicit_total_leaves_promotions:
  assumes "totalAmount req = Some t"
    and "create_booking e d req = Some (r, d')"
  shows "promotions d' = promotions d
         \<and> (\<forall>bid amt. r = BookingCreated bid amt \<longrightarrow>
              (\<exists>row. bookings d' = bookings d @ [row] \<and> booking_id row = bid
                 \<and> promo_code row
                     = (if promoCode req \<noteq> [] then Some (promoCode req) else None)))"
proof -
  from create_booking_cases[OF assms(2)]
  consider (early) "d' = d" "\<forall>b a. r \<noteq> BookingCreated b a"
    | (late) ci departureFlight returnFlight where
        "price_and_persist e d req ci departureFlight returnFlight = Some (r, d')"
    by blast
  then show ?thesis
  proof cases
    case early
    then show ?thesis by simp
  next
    case late
    from late obtain bid amount ps' promos' where
      c: "compute_amount e (promotions d) req (or_else (seatClass ci) ''ECONOMY'')
            departureFlight returnFlight = (amount, ps', promos')"
      and p: "persist_booking e
         (d\<lparr>promotions := promos',
            flights := reserve_seats req (or_else (seatClass ci) ''ECONOMY'')
                         departureFlight returnFlight (flights d)\<rparr>)
         req ci departureFlight returnFlight bid (max 0 amount) ps' = (r, d')"
      by (rule price_and_persist_returns)
    from c assms(1) have same: "promos' = promotions d"
      by (simp add: compute_amount_def)
    from persist_booking_frame[OF p] same have "promotions d' = promotions d"
      by simp
    moreover have "\<exists>row. bookings d' = bookings d @ [row] \<and> booking_id row = b
                 \<and> promo_code row
                     = (if promoCode req \<noteq> [] then Some (promoCode req) else None)"
      if "r = BookingCreated b a" for b a
      using persist_booking_created[OF p[unfolded that]]
      by (auto simp: booking_row_def)
    ultimately show ?thesis by blast
  qed
qed

theorem explicit_total_leaves_promotions_witness:
  "totalAmount ((one_way_request 2 [adult ''A'', adult ''B''])
       \<lparr>promoCode := ''WELCOME10'', totalAmount := Some 500000\<rparr>) = Some 500000
   \<and> map_option fst (create_booking sample_env promo_db
        ((one_way_request 2 [adult ''A'', adult ''B''])
           \<lparr>promoCode := ''WELCOME10'', totalAmount := Some 500000\<rparr>))
      = Some (BookingCreated ''AB12CD34EF'' 500000)
   \<and> promotions (snd (the (create_booking sample_env promo_db
        ((one_way_request 2 [adult ''A'', adult ''B''])
           \<lparr>promoCode := ''WELCOME10'', totalAmount := Some 500000\<rparr>))))
      = [welcome10, fixed200k]
   \<and> map promo_code (bookings (snd (the (create_booking sample_env promo_db
        ((one_way_request 2 [adult ''A'', adult ''B''])
           \<lparr>promoCode := ''WELCOME10'', totalAmount := Some 500000\<rparr>)))))
      = [Some ''WELCOME10'']"
proof -
  let ?req = "(one_way_request 2 [adult ''A'', adult ''B''])
                \<lparr>promoCode := ''WELCOME10'', totalAmount := Some 500000\<rparr>"
  let ?run = "create_booking sample_env promo_db ?req"
  have t: "totalAmount ?req = Some 500000"
    by (simp add: one_way_request_def)
  have r: "map_option fst ?run = Some (BookingCreated ''AB12CD34EF'' 500000)"
    by (simp add: sample_defs handler_defs Let_def)
  have pc: "promoCode ?req = ''WELCOME10''" "bookings promo_db = []"
    "promotions promo_db = [welcome10, fixed200k]"
    by (simp_all add: one_way_request_def promo_db_def sample_db_def)
  from explicit_total_leaves_promotions[OF t run_with_store[OF r]] pc
  have "promotions (snd (the ?run)) = [welcome10, fixed200k]
        \<and> map promo_code (bookings (snd (the ?run))) = [Some ''WELCOME10'']"
    by auto
  with t r show ?thesis by blast
qed

lemma percent_of_two_million:
  "double_round (56294995342131203125 / 281474976710656) = 200000"
  by (simp add: double_round_up[where j = 35] round_half_even_def)

text \<open>
  Claim C4, as the code has it. The booking handler does not ask the validate endpoint
  whether a promo code is valid: it has a lookup of its own, which compares the two
  dates as text with the date of the day and does not read the status. A promotion
  without a start date is valid for the validate endpoint and is not found by the
  lookup: the booking is charged the full 2000000. An inactive promotion is refused by
  the validate endpoint and found by the lookup: the booking gets the discount.
\<close>

theorem valid_promo_is_not_what_booking_applies:
  "validate_promotion (dated_env 1750000000000) lookup_db ''OPEN10''
     = ValidPromo ''OPEN10'' ''percent'' 10 ''active''
   \<and> map_option fst (create_booking (dated_env 1750000000000) lookup_db
        (priced_request None ''OPEN10'')) = Some (BookingCreated ''AB12CD34EF'' 2000000)
   \<and> validate_promotion (dated_env 1750000000000) lookup_db ''PAUSED10''
     = InvalidOrInactiveCode
   \<and> map_option fst (create_booking (dated_env 1750000000000) lookup_db
        (priced_request None ''PAUSED10'')) = Some (BookingCreated ''AB12CD34EF'' 1800000)"
proof -
  have v: "validate_promotion (dated_env 1750000000000) lookup_db ''OPEN10''
             = ValidPromo ''OPEN10'' ''percent'' 10 ''active''"
    "validate_promotion (dated_env 1750000000000) lookup_db ''PAUSED10''
       = InvalidOrInactiveCode"
    by (simp_all add: validate_promotion_def find_active_promo_def lookup_db_def undated10_def
        paused10_def welcome10_def sample_db_def dated_env_def js_date_def date_lt_def)
  have b: "map_option fst (create_booking (dated_env 1750000000000) lookup_db
        (priced_request None ''OPEN10'')) = Some (BookingCreated ''AB12CD34EF'' 2000000)"
    "map_option fst (create_booking (dated_env 1750000000000) lookup_db
        (priced_request None ''PAUSED10'')) = Some (BookingCreated ''AB12CD34EF'' 1800000)"
    by (simp_all add: priced_request_def dated_env_def lookup_db_def undated10_def paused10_def
        sample_defs handler_defs percent_of_two_million Let_def)
  from v b show ?thesis by simp
qed

text \<open>
  Claim C4, amended. Let a booking be created for a request whose flights are found, and
  let \<open>calc\<close> be the amount that the fare loops calculate. The amount of the response is
  the amount stored in the booking row, and it is never negative. If the caller gave a
  total \<open>t\<close>, the amount is \<open>max 0 t\<close>: the total is taken as it is, without any
  discount, and clamped. If the caller gave none and the lookup of the booking handler
  finds a promotion for the promo code (a row of that code whose usage count is below
  its cap and whose start and end dates, as text, have the date of the day between
  them; the status is not read, and this is not the validity of the validate
  endpoint), the amount is \<open>calc\<close> less the discount, clamped at 0: the discount is
  \<open>calc * (magnitude / 100)\<close> for a percent promotion and the magnitude for a fixed
  one, in the arithmetic of numbers. If the caller gave none and there is no promo
  code, or the lookup finds none, the amount is \<open>max 0 calc\<close>.
\<close>

theorem final_amount_of_created_booking:
  assumes "create_booking e d req = Some (BookingCreated bid amt, d')"
    and "departureFlightId req = Some depRef"
    and "customerInfo req = Some ci"
    and "resolve_flight (flights d) depRef = Some departureFlight"
    and "resolve_return (flights d) req = Inr returnFlight"
    and "calc = fst (calculate_amount e (or_else (seatClass ci) ''ECONOMY'') departureFlight
                      (isRoundTrip req) returnFlight (passengers req))"
  shows "0 \<le> amt
     \<and> (\<exists>row \<in> set (bookings d'). booking_id row = bid \<and> total_amount row = amt)
     \<and> (\<forall>t. totalAmount req = Some t \<longrightarrow> amt = max 0 t)
     \<and> (\<forall>promo. totalAmount req = None \<and> promoCode req \<noteq> []
            \<and> find_usable_promo (today e) (promoCode req) (promotions d) = Some promo \<longrightarrow>
          (discount_type promo = ''percent'' \<longrightarrow>
             amt = max 0 (js_sub calc (js_mul calc (js_div (discount_value promo) 100))))
          \<and> (discount_type promo = ''fixed'' \<longrightarrow>
             amt = max 0 (js_sub calc (discount_value promo))))
     \<and> (totalAmount req = None
          \<and> (promoCode req = []
               \<or> find_usable_promo (today e) (promoCode req) (promotions d) = None) \<longrightarrow>
          amt = max 0 calc)"
proof -
  from create_booking_cases[OF assms(1)] assms(2-5)
  have "price_and_persist e d req ci departureFlight returnFlight
          = Some (BookingCreated bid amt, d')"
    by auto
  then obtain b amount ps' promos' where
    c: "compute_amount e (promotions d) req (or_else (seatClass ci) ''ECONOMY'')
          departureFlight returnFlight = (amount, ps', promos')"
    and p: "persist_booking e
       (d\<lparr>promotions := promos',
          flights := reserve_seats req (or_else (seatClass ci) ''ECONOMY'')
                       departureFlight returnFlight (flights d)\<rparr>)
       req ci departureFlight returnFlight b (max 0 amount) ps' = (BookingCreated bid amt, d')"
    by (rule price_and_persist_returns)
  from persist_booking_created[OF p]
  have amt: "amt = max 0 amount"
    and row: "\<exists>row \<in> set (bookings d'). booking_id row = bid \<and> total_amount row = amt"
    by (auto simp: booking_row_def)
  have given: "amount = t" if "totalAmount req = Some t" for t
    using c that by (simp add: compute_amount_def)
  have promo: "amount = js_sub calc (discount_applied promo calc)"
    if "totalAmount req = None" "promoCode req \<noteq> []"
      "find_usable_promo (today e) (promoCode req) (promotions d) = Some promo" for promo
    using c that assms(6) by (simp add: compute_amount_def split_beta)
  have plain: "amount = calc"
    if "totalAmount req = None"
      "promoCode req = [] \<or> find_usable_promo (today e) (promoCode req) (promotions d) = None"
    using c that assms(6)
    by (auto simp: compute_amount_def split_beta split: if_splits option.splits)
  from amt row given promo plain show ?thesis
    by (auto simp: discount_applied_def)
qed

theorem final_amount_of_created_booking_witness:
  "map_option fst (create_booking sample_env promo_db (priced_request (Some (- 5)) []))
     = Some (BookingCreated ''AB12CD34EF'' 0)
   \<and> map_option fst (create_booking sample_env promo_db (priced_request None ''WELCOME10''))
     = Some (BookingCreated ''AB12CD34EF'' 1800000)
   \<and> map_option fst (create_booking sample_env promo_db (priced_request None ''FIXED200K''))
     = Some (BookingCreated ''AB12CD34EF'' 1800000)
   \<and> (1800000 :: real) = max 0 (js_sub 2000000 (js_mul 2000000 (js_div 10 100)))
   \<and> (1800000 :: real) = max 0 (js_sub 2000000 200000)
   \<and> (0 :: real) = max 0 (- 5)"
proof -
  let ?run = "\<lambda>req. create_booking sample_env promo_db req"
  have runs:
    "map_option fst (?run (priced_request (Some (- 5)) [])) = Some (BookingCreated ''AB12CD34EF'' 0)"
    "map_option fst (?run (priced_request None ''WELCOME10''))
       = Some (BookingCreated ''AB12CD34EF'' 1800000)"
    "map_option fst (?run (priced_request None ''FIXED200K''))
       = Some (BookingCreated ''AB12CD34EF'' 1800000)"
    by (simp_all add: priced_request_def sample_defs handler_defs percent_of_two_million
        Let_def)
  have found_flight:
    "resolve_flight (flights promo_db) (RefNum 2) = Some (sample_flight 2 10)"
    by (simp add: promo_db_def sample_db_def resolve_flight_def find_flight_by_id_def
        sample_flight_def)
  have reach:
    "departureFlightId (priced_request x y) = Some (RefNum 2)"
    "customerInfo (priced_request x y) = Some sample_customer"
    "resolve_return (flights promo_db) (priced_request x y) = Inr None"
    for x y
    by (simp_all add: priced_request_def one_way_request_def resolve_return_def)
  have calc: "2000000 = fst (calculate_amount sample_env
                 (or_else (seatClass sample_customer) ''ECONOMY'') (sample_flight 2 10)
                 (isRoundTrip (priced_request x y)) None (passengers (priced_request x y)))"
    for x y
    by (simp add: priced_request_def sample_defs handler_defs Let_def)
  have fields: "totalAmount (priced_request x y) = x" "promoCode (priced_request x y) = y"
    for x y
    by (simp_all add: priced_request_def)
  have found:
    "find_usable_promo (today sample_env) ''WELCOME10'' (promotions promo_db) = Some welcome10"
    "find_usable_promo (today sample_env) ''FIXED200K'' (promotions promo_db) = Some fixed200k"
    by (simp_all add: sample_defs find_usable_promo_def usable_today_def)
  have kinds: "discount_type welcome10 = ''percent''" "discount_value welcome10 = 10"
    "discount_type fixed200k = ''fixed''" "discount_value fixed200k = 200000"
    by (simp_all add: welcome10_def fixed200k_def)
  have g: "(0 :: real) = max 0 (- 5)"
    using final_amount_of_created_booking[OF run_with_store[OF runs(1)] reach(1,2)
        found_flight reach(3) calc] fields
    by simp
  have p: "(1800000 :: real) = max 0 (js_sub 2000000 (js_mul 2000000 (js_div 10 100)))"
    using final_amount_of_created_booking[OF run_with_store[OF runs(2)] reach(1,2)
        found_flight reach(3) calc] fields found(1) kinds
    by simp
  have f: "(1800000 :: real) = max 0 (js_sub 2000000 200000)"
    using final_amount_of_created_booking[OF run_with_store[OF runs(3)] reach(1,2)
        found_flight reach(3) calc] fields found(2) kinds
    by simp
  from runs g p f show ?thesis by blast
qed

lemma compute_amount_names:
  assumes "compute_amount e promos req cls departureFlight returnFlight = (amount, ps', promos')"
  shows "map fullName ps' = map fullName (passengers req)"
proof (cases "totalAmount req")
  case (Some t)
  with assms show ?thesis by (simp add: compute_amount_def)
next
  case None
  have "map fullName (snd (calculate_amount e cls departureFlight (isRoundTrip req)
          returnFlight (passengers req))) = map fullName (passengers req)"
    by (cases returnFlight)
       (simp_all add: calculate_amount_def split_beta departure_fare_loop_passengers comp_def)
  moreover from assms None
  have "ps' = snd (calculate_amount e cls departureFlight (isRoundTrip req) returnFlight
                     (passengers req))"
    by (auto simp: compute_amount_def split_beta split: if_splits option.splits)
  ultimately show ?thesis by simp
qed

lemma generated_id_is_fresh:
  assumes "generate_unique_id bs candidates = Some bid"
  shows "\<forall>b \<in> set bs. booking_id b \<noteq> bid"
proof -
  from assms have "find (\<lambda>b. booking_id b = bid) bs = None"
    by (auto simp: generate_unique_id_def find_Some_iff)
  then show ?thesis by (auto simp: find_None_iff)
qed

text \<open>
  Claim C5. Let a request pass the checks, get its identifier and have its booking row
  written. If the insertion of the passenger row of index \<open>k\<close> raises, the rows before
  it having been written, the call answers with the 500 whose details are
  \<^verbatim>\<open>Failed to save passenger details: \<close> followed by the message of that error. In
  the store that comes back the bookings table is the one before the call (the booking
  row is deleted, and no row has the identifier), the flights are as the reservation
  left them (the seats stay reserved), and the passenger rows written before the
  failure stay.
\<close>

theorem passenger_insert_failure_deletes_booking:
  assumes "missing_fields req = []"
    and "departureFlightId req = Some depRef"
    and "customerInfo req = Some ci"
    and "resolve_flight (flights d) depRef = Some departureFlight"
    and "resolve_return (flights d) req = Inr returnFlight"
    and "cls = or_else (seatClass ci) ''ECONOMY''"
    and "\<not> seats_lt (seat_value (seat_field_of cls) departureFlight)
            (int (length (passengers req)))"
    and "\<And>rf. isRoundTrip req \<Longrightarrow> returnFlight = Some rf \<Longrightarrow>
           \<not> seats_lt (seat_value (seat_field_of cls) rf) (int (length (passengers req)))"
    and "generate_unique_id (bookings d) (id_candidates e) = Some bid"
    and "compute_amount e (promotions d) req cls departureFlight returnFlight
           = (amount, ps', promos')"
    and "isRoundTrip req \<Longrightarrow> returnFlight \<noteq> None"
    and "ci_fullName ci = Some name"
    and "k < length (passengers req)"
    and "\<forall>j<k. fullName (passengers req ! j) \<noteq> [] \<and> detail_insert_error e j = None"
    and "fullName (passengers req ! k) \<noteq> []"
    and "detail_insert_error e k = Some msg"
  shows "create_booking e d req =
           Some (InternalError (''Failed to save passenger details: '' @ msg),
                 d\<lparr>promotions := promos',
                   flights := reserve_seats req cls departureFlight returnFlight (flights d),
                   booking_details :=
                     booking_details d
                       @ map (detail_row e (selectedServices req) bid) (take k ps')\<rparr>)
         \<and> (\<forall>b \<in> set (bookings d). booking_id b \<noteq> bid)"
proof -
  let ?d2 = "d\<lparr>promotions := promos',
               flights := reserve_seats req cls departureFlight returnFlight (flights d)\<rparr>"
  let ?row = "booking_row e req ci name departureFlight returnFlight bid (max 0 amount)"
  let ?d3 = "?d2\<lparr>bookings := bookings ?d2 @ [?row]\<rparr>"
  have fresh: "\<forall>b \<in> set (bookings d). booking_id b \<noteq> bid"
    using assms(9) by (rule generated_id_is_fresh)
  then have kept: "filter (\<lambda>b. booking_id b \<noteq> bid) (bookings d) = bookings d"
    by simp
  have names: "map fullName ps' = map fullName (passengers req)"
    using assms(10) by (rule compute_amount_names)
  then have len: "length ps' = length (passengers req)"
    by (metis length_map)
  have nth: "fullName (ps' ! j) = fullName (passengers req ! j)" if "j < length ps'" for j
    using names that by (metis len nth_map)
  have k: "k < length ps'" using assms(13) len by simp
  have before: "\<forall>j<k. fullName (ps' ! j) \<noteq> [] \<and> detail_insert_error e (0 + j) = None"
    using assms(14) nth k by simp
  have at: "fullName (ps' ! k) \<noteq> []" "detail_insert_error e (0 + k) = Some msg"
    using assms(15,16) nth k by simp_all
  have loop: "insert_passengers e (selectedServices req) bid 0 ps' ?d3 =
     (Some (InternalError (''Failed to save passenger details: '' @ msg)),
      ?d3\<lparr>booking_details :=
             booking_details ?d3 @ map (detail_row e (selectedServices req) bid) (take k ps'),
           bookings := filter (\<lambda>b. booking_id b \<noteq> bid) (bookings ?d3)\<rparr>)"
    using k before at by (rule insert_passengers_raises)
  have persist: "persist_booking e ?d2 req ci departureFlight returnFlight bid (max 0 amount) ps'
      = (InternalError (''Failed to save passenger details: '' @ msg),
         ?d2\<lparr>booking_details :=
               booking_details d @ map (detail_row e (selectedServices req) bid) (take k ps')\<rparr>)"
    using assms(11,12) loop kept
    by (auto simp: persist_booking_def Let_def booking_row_def)
  have "create_booking e d req = price_and_persist e d req ci departureFlight returnFlight"
    using create_booking_reaches[OF assms(1-5)] book_resolved_passes[of ci departureFlight req returnFlight e d]
      assms(6,7,8) by simp
  also have "\<dots> = Some (persist_booking e ?d2 req ci departureFlight returnFlight bid
                          (max 0 amount) ps')"
    using price_and_persist_runs[OF assms(9)] assms(6,10) by simp
  finally show ?thesis using persist fresh by simp
qed

theorem passenger_insert_failure_deletes_booking_witness:
  "create_booking failing_env sample_db (one_way_request 2 [adult ''A'', adult ''B''])
     = Some (InternalError
               ''Failed to save passenger details: SQLITE_FULL: database or disk is full'',
             sample_db\<lparr>flights := [sample_flight 1 3, sample_flight 2 8],
               booking_details :=
                 [detail_row failing_env None ''AB12CD34EF''
                    ((adult ''A'')\<lparr>calculatedPassengerType := ''ADULT''\<rparr>)]\<rparr>)"
proof -
  let ?req = "one_way_request 2 [adult ''A'', adult ''B'']"
  have reach: "missing_fields ?req = []" "departureFlightId ?req = Some (RefNum 2)"
    "customerInfo ?req = Some sample_customer"
    "resolve_flight (flights sample_db) (RefNum 2) = Some (sample_flight 2 10)"
    "resolve_return (flights sample_db) ?req = Inr None"
    "''ECONOMY'' = or_else (seatClass sample_customer) ''ECONOMY''"
    by (simp_all add: one_way_request_def missing_fields_def ref_truthy_def resolve_flight_def
        find_flight_by_id_def sample_db_def sample_flight_def resolve_return_def
        sample_customer_def or_else_def)
  have pass: "\<not> seats_lt (seat_value (seat_field_of ''ECONOMY'') (sample_flight 2 10))
                 (int (length (passengers ?req)))"
    by (simp add: seats_lt_def seat_value_def seat_field_of_def sample_flight_def
        one_way_request_def)
  have no_return: "\<not> seats_lt (seat_value (seat_field_of ''ECONOMY'') rf)
                      (int (length (passengers ?req)))"
    if "isRoundTrip ?req" for rf
    using that by (simp add: one_way_request_def)
  have gen: "generate_unique_id (bookings sample_db) (id_candidates failing_env)
               = Some ''AB12CD34EF''"
    by (simp add: generate_unique_id_def sample_db_def failing_env_def sample_env_def)
  have amt: "compute_amount failing_env (promotions sample_db) ?req ''ECONOMY''
               (sample_flight 2 10) None
             = (2000000, map (\<lambda>p. p\<lparr>calculatedPassengerType := ''ADULT''\<rparr>)
                           [adult ''A'', adult ''B''], [])"
    by (simp add: failing_env_def sample_defs handler_defs Let_def)
  have rest: "isRoundTrip ?req \<Longrightarrow> (None :: flight option) \<noteq> None"
    "ci_fullName sample_customer = Some ''An''"
    "1 < length (passengers ?req)"
    "\<forall>j<1. fullName (passengers ?req ! j) \<noteq> [] \<and> detail_insert_error failing_env j = None"
    "fullName (passengers ?req ! 1) \<noteq> []"
    "detail_insert_error failing_env 1 = Some ''SQLITE_FULL: database or disk is full''"
    by (simp_all add: one_way_request_def sample_customer_def adult_def failing_env_def)
  have seats: "reserve_seats ?req ''ECONOMY'' (sample_flight 2 10) None (flights sample_db)
                 = [sample_flight 1 3, sample_flight 2 8]"
    by (simp add: reserve_seats_def decrement_seats_def add_seats_def seat_field_of_def
        sample_db_def sample_flight_def one_way_request_def)
  from passenger_insert_failure_deletes_booking[OF reach pass no_return gen amt rest] seats
  show ?thesis
    by (simp add: sample_db_def one_way_request_def)
qed

lemma find_in_set: "find P xs = Some x \<Longrightarrow> x \<in> set xs \<and> P x"
  by (auto simp: find_Some_iff)

lemma resolve_flight_in_table: "resolve_flight fs r = Some f \<Longrightarrow> f \<in> set fs"
  by (auto simp: resolve_flight_def find_flight_by_id_def find_flight_by_code_def
      split: flight_ref.splits option.splits dest: find_in_set)

lemma resolve_return_in_table: "resolve_return fs req = Inr (Some f) \<Longrightarrow> f \<in> set fs"
  by (auto simp: resolve_return_def split: if_splits option.splits
      dest: resolve_flight_in_table)

lemma same_id_same_row:
  "distinct (map flight_id fs) \<Longrightarrow> f \<in> set fs \<Longrightarrow> g \<in> set fs \<Longrightarrow>
     flight_id f = flight_id g \<Longrightarrow> f = g"
  by (meson distinct_map inj_onD)

lemma seat_value_add_seats:
  "seat_value fld (add_seats fld k f) = map_option (\<lambda>v. v + k) (seat_value fld f)"
  by (cases fld) (simp_all add: seat_value_def add_seats_def)

lemma available_add_seats: "available_seats (add_seats fld k f) = available_seats f + k"
  by (cases fld) (simp_all add: add_seats_def)

lemma flight_id_add_seats: "flight_id (add_seats fld k f) = flight_id f"
  by (cases fld) (simp_all add: add_seats_def)

lemma create_booking_flights:
  assumes "create_booking e d req = Some (r, d')"
    and "missing_fields req = []"
    and "departureFlightId req = Some depRef"
    and "customerInfo req = Some ci"
    and "resolve_flight (flights d) depRef = Some departureFlight"
    and "resolve_return (flights d) req = Inr returnFlight"
    and "\<not> seats_lt (seat_value (seat_field_of (or_else (seatClass ci) ''ECONOMY''))
              departureFlight) (int (length (passengers req)))"
    and "\<And>rf. isRoundTrip req \<Longrightarrow> returnFlight = Some rf \<Longrightarrow>
           \<not> seats_lt (seat_value (seat_field_of (or_else (seatClass ci) ''ECONOMY'')) rf)
               (int (length (passengers req)))"
  shows "flights d' =
           reserve_seats req (or_else (seatClass ci) ''ECONOMY'') departureFlight returnFlight
             (flights d)"
proof -
  have "create_booking e d req = price_and_persist e d req ci departureFlight returnFlight"
    using create_booking_reaches[OF assms(2-6)]
      book_resolved_passes[of ci departureFlight req returnFlight e d] assms(7,8)
    by simp
  with assms(1)
  have "price_and_persist e d req ci departureFlight returnFlight = Some (r, d')"
    by simp
  then obtain bid amount ps' promos' where
    "persist_booking e
       (d\<lparr>promotions := promos',
          flights := reserve_seats req (or_else (seatClass ci) ''ECONOMY'')
                       departureFlight returnFlight (flights d)\<rparr>)
       req ci departureFlight returnFlight bid (max 0 amount) ps' = (r, d')"
    by (rule price_and_persist_returns)
  from persist_booking_frame[OF this] show ?thesis by simp
qed

text \<open>
  Claim C2, as the code has it. The reservation is an unconditional decrement: the
  update of a flight with 1 economy seat by 2 leaves -1. The handler makes it after its
  availability checks have passed, and the claim fails there too: a round trip whose
  return flight is its departure flight passes both checks against the same count and
  decrements it twice. With 3 economy seats and 2 passengers the count of the flight
  ends at -1. The same happens to two requests handled at once: the handler waits on
  the store between its check and its update, so each of two one-way requests for 2
  seats can read the flight row with its 3 seats and pass the check before either
  updates; the two updates, one after the other, leave -1.
\<close>

theorem reserve_drives_count_negative:
  "map seats_economy (decrement_seats seats_economy_field 2 1 [sample_flight 1 1]) = [- 1]
   \<and> map_option (map seats_economy \<circ> flights \<circ> snd)
       (create_booking sample_env sample_db (round_trip_request 1 1 [adult ''A'', adult ''B'']))
     = Some [- 1, 10]
   \<and> \<not> seats_lt (seat_value seats_economy_field (sample_flight 1 3))
           (int (length (passengers (one_way_request 1 [adult ''A'', adult ''B'']))))
   \<and> map seats_economy
        (reserve_seats (one_way_request 1 [adult ''C'', adult ''D'']) ''ECONOMY''
           (sample_flight 1 3) None
           (reserve_seats (one_way_request 1 [adult ''A'', adult ''B'']) ''ECONOMY''
              (sample_flight 1 3) None (flights sample_db)))
     = [- 1, 10]"
  by (simp add: sample_defs handler_defs Let_def)

text \<open>
  Claim C2, amended. The reservation is an unconditional decrement, which nothing but
  the earlier availability check of the same request protects. Let a request be handled
  alone, from its reading of the flights to its answer, no other request writing to the
  store in between: this is what \<open>create_booking\<close> is, a function of the store that the
  request finds. Let the flight identifiers of the table be distinct and let the
  request pass both availability checks, its return flight, if any, being another
  flight than its departure flight. Then, whatever the handler answers afterwards,
  every flight of the request has had a count \<open>v\<close> of the selected class of at least the
  number \<open>n\<close> of passengers, now has the count \<open>v - n\<close>, which is not negative, and has
  its aggregate count decremented by \<open>n\<close>; every other flight is unchanged. Nothing is
  said of requests handled at once.
\<close>

theorem reserve_after_check_keeps_class_count:
  assumes "distinct (map flight_id (flights d))"
    and "create_booking e d req = Some (r, d')"
    and "missing_fields req = []"
    and "departureFlightId req = Some depRef"
    and "customerInfo req = Some ci"
    and "resolve_flight (flights d) depRef = Some departureFlight"
    and "resolve_return (flights d) req = Inr returnFlight"
    and "fld = seat_field_of (or_else (seatClass ci) ''ECONOMY'')"
    and "n = int (length (passengers req))"
    and "\<not> seats_lt (seat_value fld departureFlight) n"
    and "\<And>rf. isRoundTrip req \<Longrightarrow> returnFlight = Some rf \<Longrightarrow>
           \<not> seats_lt (seat_value fld rf) n \<and> flight_id rf \<noteq> flight_id departureFlight"
  shows "list_all2
           (\<lambda>f f'. if flight_id f = flight_id departureFlight
                       \<or> (isRoundTrip req \<and> map_option flight_id returnFlight = Some (flight_id f))
                    then \<exists>v. seat_value fld f = Some v \<and> n \<le> v
                           \<and> seat_value fld f' = Some (v - n) \<and> 0 \<le> v - n
                           \<and> available_seats f' = available_seats f - n
                    else f' = f)
           (flights d) (flights d')"
proof -
  have fl: "flights d' =
      reserve_seats req (or_else (seatClass ci) ''ECONOMY'') departureFlight returnFlight
        (flights d)"
    using assms(2-7) assms(10,11)[unfolded assms(8,9)]
    by (intro create_booking_flights) auto
  have dep_in: "departureFlight \<in> set (flights d)"
    using assms(6) by (rule resolve_flight_in_table)
  have counted: "\<exists>v. seat_value fld g = Some v \<and> n \<le> v" if "\<not> seats_lt (seat_value fld g) n" for g
  proof (cases "seat_value fld g")
    case None
    from assms(3) have "passengers req \<noteq> []"
      by (auto simp: missing_fields_def split: if_splits)
    with that None assms(9) show ?thesis by (simp add: seats_lt_def)
  next
    case (Some v)
    with that show ?thesis by (simp add: seats_lt_def)
  qed
  show ?thesis
  proof (cases "isRoundTrip req \<and> returnFlight \<noteq> None")
    case False
    then have one: "flights d' = decrement_seats fld n (flight_id departureFlight) (flights d)"
      using fl assms(8,9) by (auto simp: reserve_seats_def Let_def split: option.splits)
    have "\<exists>v. seat_value fld f = Some v \<and> n \<le> v
            \<and> seat_value fld (add_seats fld (- n) f) = Some (v - n) \<and> 0 \<le> v - n
            \<and> available_seats (add_seats fld (- n) f) = available_seats f - n"
      if "f \<in> set (flights d)" "flight_id f = flight_id departureFlight" for f
    proof -
      from same_id_same_row[OF assms(1) that(1) dep_in that(2)]
      have "f = departureFlight" .
      with counted[OF assms(10)] show ?thesis
        by (auto simp: seat_value_add_seats available_add_seats)
    qed
    with False show ?thesis
      unfolding one decrement_seats_def
      by (auto simp: list_all2_map2 list_all2_same)
  next
    case True
    then obtain rf where rf: "returnFlight = Some rf" and rt: "isRoundTrip req"
      by auto
    from assms(11)[OF rt rf]
    have rpass: "\<not> seats_lt (seat_value fld rf) n"
      and other: "flight_id rf \<noteq> flight_id departureFlight" by simp_all
    have ret_in: "rf \<in> set (flights d)"
      using assms(7) rf by (auto dest: resolve_return_in_table)
    have two: "flights d' =
        decrement_seats fld n (flight_id rf)
          (decrement_seats fld n (flight_id departureFlight) (flights d))"
      using fl assms(8,9) rf rt by (simp add: reserve_seats_def Let_def)
    have dep: "\<exists>v. seat_value fld f = Some v \<and> n \<le> v
            \<and> seat_value fld (add_seats fld (- n) f) = Some (v - n) \<and> 0 \<le> v - n
            \<and> available_seats (add_seats fld (- n) f) = available_seats f - n"
      if "f \<in> set (flights d)" "flight_id f = flight_id departureFlight \<or> flight_id f = flight_id rf"
      for f
    proof -
      from that(2) same_id_same_row[OF assms(1) that(1) dep_in]
        same_id_same_row[OF assms(1) that(1) ret_in]
      have "f = departureFlight \<or> f = rf" by blast
      with counted[OF assms(10)] counted[OF rpass] show ?thesis
        by (auto simp: seat_value_add_seats available_add_seats)
    qed
    from dep other rf rt show ?thesis
      unfolding two decrement_seats_def
      by (auto simp: list_all2_map2 list_all2_same flight_id_add_seats)
  qed
qed

theorem reserve_after_check_keeps_class_count_witness:
  "map_option fst
     (create_booking sample_env sample_db (round_trip_request 2 1 [adult ''A'', adult ''B'']))
     = Some (BookingCreated ''AB12CD34EF'' 4000000)
   \<and> list_all2
        (\<lambda>f f'. if flight_id f = flight_id (sample_flight 2 10)
                    \<or> (isRoundTrip (round_trip_request 2 1 [adult ''A'', adult ''B''])
                        \<and> map_option flight_id (Some (sample_flight 1 3)) = Some (flight_id f))
                 then \<exists>v. seat_value seats_economy_field f = Some v \<and> 2 \<le> v
                        \<and> seat_value seats_economy_field f' = Some (v - 2) \<and> 0 \<le> v - 2
                        \<and> available_seats f' = available_seats f - 2
                 else f' = f)
        (flights sample_db)
        (flights (snd (the (create_booking sample_env sample_db
                              (round_trip_request 2 1 [adult ''A'', adult ''B''])))))"
proof -
  let ?req = "round_trip_request 2 1 [adult ''A'', adult ''B'']"
  have run: "map_option fst (create_booking sample_env sample_db ?req)
               = Some (BookingCreated ''AB12CD34EF'' 4000000)"
    by (simp add: sample_defs handler_defs Let_def)
  have ids: "distinct (map flight_id (flights sample_db))"
    by (simp add: sample_db_def sample_flight_def)
  have reach: "missing_fields ?req = []" "departureFlightId ?req = Some (RefNum 2)"
    "customerInfo ?req = Some sample_customer"
    "resolve_flight (flights sample_db) (RefNum 2) = Some (sample_flight 2 10)"
    "resolve_return (flights sample_db) ?req = Inr (Some (sample_flight 1 3))"
    "seats_economy_field = seat_field_of (or_else (seatClass sample_customer) ''ECONOMY'')"
    "2 = int (length (passengers ?req))"
    by (simp_all add: round_trip_request_def one_way_request_def missing_fields_def
        ref_truthy_def resolve_flight_def find_flight_by_id_def sample_db_def sample_flight_def
        resolve_return_def sample_customer_def or_else_def seat_field_of_def)
  have pass: "\<not> seats_lt (seat_value seats_economy_field (sample_flight 2 10)) 2"
    by (simp add: seats_lt_def seat_value_def sample_flight_def)
  have legs: "\<not> seats_lt (seat_value seats_economy_field rf) 2
              \<and> flight_id rf \<noteq> flight_id (sample_flight 2 10)"
    if "isRoundTrip ?req" "Some (sample_flight 1 3) = Some rf" for rf
    using that by (auto simp: seats_lt_def seat_value_def sample_flight_def)
  from reserve_after_check_keeps_class_count[OF ids run_with_store[OF run] reach pass legs] run
  show ?thesis by blast
qed


section \<open>Properties of the seat updates\<close>

lemmas payment_defs = update_payment_status_def confirm_promo_usage_def passenger_count_def
  restores_seats_def restore_seats_def increment_seats_def add_seats_def seat_field_of_def
  or_else_def increment_used_count_def

lemmas booked_defs = sample_booking_def sample_detail_def booked_db_def sample_flight_def
  welcome10_def fixed200k_def

lemma add_seats_add_seats: "add_seats fld a (add_seats fld b f) = add_seats fld (a + b) f"
  by (cases fld) (simp_all add: add_seats_def option.map_comp comp_def add.commute add.left_commute)

lemma add_seats_zero: "add_seats fld 0 f = f"
  by (cases fld) (simp_all add: add_seats_def option.map_ident)

lemma add_seats_in_sync:
  "seats_in_sync f \<Longrightarrow> seat_value fld f \<noteq> None \<Longrightarrow> seats_in_sync (add_seats fld k f)"
  by (cases fld)
     (auto simp: seats_in_sync_def total_seats_def add_seats_def seat_value_def
        split: option.splits)

lemma update_payment_status_flights:
  assumes "find (\<lambda>b. booking_id b = bid) (bookings d) = Some cur"
    and "st \<noteq> []"
    and "update_payment_status d bid st = (r, d')"
  shows "r = PaymentStatusUpdated"
    and "flights d' =
           (if restores_seats cur st
            then restore_seats cur (passenger_count bid (booking_details d)) (flights d)
            else flights d)"
    and "promotions d' = confirm_promo_usage cur st (promotions d)"
proof -
  from assms(1) have "cur \<in> set (bookings d) \<and> booking_id cur = bid"
    by (rule find_in_set)
  then have "filter (\<lambda>b. booking_id b = bid) (bookings d) \<noteq> []"
    by (auto simp: filter_empty_conv)
  with assms show "r = PaymentStatusUpdated"
    and "flights d' =
           (if restores_seats cur st
            then restore_seats cur (passenger_count bid (booking_details d)) (flights d)
            else flights d)"
    and "promotions d' = confirm_promo_usage cur st (promotions d)"
    by (auto simp: update_payment_status_def Let_def split: if_splits)
qed

lemma restore_seats_rows:
  "restore_seats cur n fs =
     map (\<lambda>f. add_seats (seat_field_of (or_else (travel_class cur) ''ECONOMY''))
                (n * legs_served cur f) f) fs"
proof -
  let ?fld = "seat_field_of (or_else (travel_class cur) ''ECONOMY'')"
  have one: "increment_seats ?fld n k fs =
               map (\<lambda>f. add_seats ?fld (n * (if flight_id f = k then 1 else 0)) f) fs" for k fs
    by (simp add: increment_seats_def add_seats_zero cong: if_cong)
  show ?thesis
  proof (cases "return_flight_id cur")
    case None
    then show ?thesis
      by (simp add: restore_seats_def Let_def one legs_served_def)
  next
    case (Some rid)
    show ?thesis
    proof (cases "is_round_trip cur = 1 \<and> rid \<noteq> 0")
      case False
      with Some show ?thesis
        by (auto simp: restore_seats_def Let_def one legs_served_def)
    next
      case True
      with Some show ?thesis
        by (auto simp: restore_seats_def Let_def one legs_served_def add_seats_add_seats
            flight_id_add_seats distrib_left)
    qed
  qed
qed

text \<open>
  What the seat step of the payment update does to every flight: with \<open>n\<close> the number
  of passenger rows of the booking and \<open>k\<close> the number of legs of the booking that the
  flight serves, the aggregate count grows by \<open>n * k\<close>, and so does the seat count of the
  class of the booking when the flight has one; a NULL count stays NULL.
\<close>

lemma cancellation_increments_seats:
  assumes "find (\<lambda>b. booking_id b = bid) (bookings d) = Some cur"
    and "payment_status cur = ''paid'' \<or> payment_status cur = ''unpaid''"
    and "st = ''cancelled'' \<or> st = ''refunded''"
    and "update_payment_status d bid st = (r, d')"
    and "n = passenger_count bid (booking_details d)"
    and "fld = seat_field_of (or_else (travel_class cur) ''ECONOMY'')"
  shows "r = PaymentStatusUpdated
     \<and> list_all2
         (\<lambda>f f'. seat_value fld f' =
                    map_option (\<lambda>v. v + n * legs_served cur f) (seat_value fld f)
                  \<and> available_seats f' = available_seats f + n * legs_served cur f)
         (flights d) (flights d')"
proof -
  from assms(3) have st: "st \<noteq> []" by auto
  from assms(2,3) have rs: "restores_seats cur st"
    by (simp add: restores_seats_def)
  from update_payment_status_flights[OF assms(1) st assms(4)] rs assms(5,6)
  have r: "r = PaymentStatusUpdated"
    and fl: "flights d' = map (\<lambda>f. add_seats fld (n * legs_served cur f) f) (flights d)"
    by (simp_all add: restore_seats_rows)
  have "list_all2
         (\<lambda>f f'. seat_value fld f' =
                    map_option (\<lambda>v. v + n * legs_served cur f) (seat_value fld f)
                  \<and> available_seats f' = available_seats f + n * legs_served cur f)
         (flights d) (flights d')"
    unfolding fl
    by (simp add: list_all2_map2 list_all2_same seat_value_add_seats available_add_seats)
  with r show ?thesis by simp
qed

text \<open>
  Claim C6. The claim is that a cancellation or refund gives back, to the seat count of
  the class and to the aggregate count of each flight of the booking, exactly the seats
  that the reservation of the booking took. The code misses this at two inputs. First,
  a booking in business class, with two passengers, on a flight whose business seat
  count has become NULL: the refund adds 2 to the aggregate count and nothing to the
  class count, although the comment of the update says that it restores both. Second,
  a request for two passengers of which the second has no name: the handler reserves 2
  seats, writes the booking row and the first passenger row, and answers 400 without
  undoing any of it (the flight goes from 10 economy seats to 8); the cancellation of
  this booking counts 1 passenger row and gives back 1 seat (9).
\<close>

theorem cancellation_gives_back_less_than_reserved:
  "passenger_count ''RT12345678'' (booking_details withdrawn_db) = 2
   \<and> map seats_business (flights withdrawn_db) = [None]
   \<and> map available_seats (flights withdrawn_db) = [10]
   \<and> map seats_business (flights (snd (update_payment_status withdrawn_db ''RT12345678''
         ''refunded''))) = [None]
   \<and> map available_seats (flights (snd (update_payment_status withdrawn_db ''RT12345678''
         ''refunded''))) = [12]
   \<and> map seats_economy (flights sample_db) = [3, 10]
   \<and> map_option fst (create_booking sample_env sample_db
         (one_way_request 2 [adult ''A'', adult '''']))
       = Some PassengerMissingFields
   \<and> map_option (map seats_economy \<circ> flights \<circ> snd) (create_booking sample_env sample_db
         (one_way_request 2 [adult ''A'', adult ''''])) = Some [3, 8]
   \<and> map_option (map payment_status \<circ> bookings \<circ> snd) (create_booking sample_env sample_db
         (one_way_request 2 [adult ''A'', adult ''''])) = Some [''unpaid'']
   \<and> map seats_economy (flights (snd (update_payment_status
         (snd (the (create_booking sample_env sample_db
            (one_way_request 2 [adult ''A'', adult '''']))))
         ''AB12CD34EF'' ''cancelled''))) = [3, 9]"
proof -
  have null_count:
    "passenger_count ''RT12345678'' (booking_details withdrawn_db) = 2"
    "map seats_business (flights withdrawn_db) = [None]"
    "map available_seats (flights withdrawn_db) = [10]"
    "map seats_business (flights (snd (update_payment_status withdrawn_db ''RT12345678''
         ''refunded''))) = [None]"
    "map available_seats (flights (snd (update_payment_status withdrawn_db ''RT12345678''
         ''refunded''))) = [12]"
    by (simp_all add: payment_defs booked_defs withdrawn_db_def withdrawn_flight_def Let_def)
  let ?run = "create_booking sample_env sample_db (one_way_request 2 [adult ''A'', adult ''''])"
  have nameless:
    "map seats_economy (flights sample_db) = [3, 10]"
    "map_option fst ?run = Some PassengerMissingFields"
    "map_option (map seats_economy \<circ> flights \<circ> snd) ?run = Some [3, 8]"
    "map_option (map payment_status \<circ> bookings \<circ> snd) ?run = Some [''unpaid'']"
    by (simp_all add: sample_defs handler_defs Let_def)
  have returned: "map seats_economy (flights (snd (update_payment_status (snd (the ?run))
         ''AB12CD34EF'' ''cancelled''))) = [3, 9]"
    by (simp add: sample_defs handler_defs payment_defs Let_def)
  from null_count nameless returned show ?thesis by simp
qed

lemma decrement_seats_in_sync:
  assumes "\<forall>f \<in> set fs. seats_in_sync f"
    and "\<forall>f \<in> set fs. flight_id f = fid \<longrightarrow> seat_value fld f \<noteq> None"
  shows "\<forall>f \<in> set (decrement_seats fld n fid fs). seats_in_sync f"
  using assms by (auto simp: decrement_seats_def add_seats_in_sync)

lemma decrement_seats_counted:
  assumes "\<forall>f \<in> set fs. flight_id f = k \<longrightarrow> seat_value fld f \<noteq> None"
  shows "\<forall>f \<in> set (decrement_seats fld n fid fs). flight_id f = k \<longrightarrow> seat_value fld f \<noteq> None"
  using assms by (auto simp: decrement_seats_def seat_value_add_seats flight_id_add_seats)

lemma checked_seat_is_counted:
  "\<not> seats_lt (seat_value fld f) (int (length ps)) \<Longrightarrow> ps \<noteq> [] \<Longrightarrow> seat_value fld f \<noteq> None"
  by (cases "seat_value fld f") (auto simp: seats_lt_def)

text \<open>
  Claim C8. The claim is the invariant of the seat counts: a flight whose aggregate
  count is the sum of its class counts (a NULL count being 0, as the creation of a
  flight sums them) still is after a reservation or a release. The code misses it
  where the class count is NULL: the flights of the store are in sync, the
  cancellation of a booking in business class on a flight whose business seat count is
  NULL adds the passenger count to the aggregate and to no class count, and the flight
  is not in sync afterwards.
\<close>

theorem cancellation_breaks_sync_on_null_count:
  "list_all seats_in_sync (flights withdrawn_db)
   \<and> \<not> list_all seats_in_sync
         (flights (snd (update_payment_status withdrawn_db ''RT12345678'' ''cancelled'')))"
  by (simp add: payment_defs booked_defs withdrawn_db_def withdrawn_flight_def
      seats_in_sync_def total_seats_def Let_def)

text \<open>
  Everywhere else the invariant is kept. After a call of booking creation, whatever it
  answers, every flight is in sync if every flight was, the flight identifiers being
  distinct. After a call of the payment update, whatever it answers, the same holds,
  provided that each flight of the booking has a count, not NULL, for the class of the
  booking.
\<close>

lemma seat_updates_keep_aggregate_in_sync:
  assumes "\<forall>f \<in> set (flights d). seats_in_sync f"
  shows "(distinct (map flight_id (flights d)) \<and> create_booking e d req = Some (r, d')
            \<longrightarrow> (\<forall>f \<in> set (flights d'). seats_in_sync f))
     \<and> (update_payment_status d bid st = (r2, d2)
          \<and> (\<forall>cur. find (\<lambda>b. booking_id b = bid) (bookings d) = Some cur \<longrightarrow>
                (\<forall>f \<in> set (flights d). legs_served cur f \<noteq> 0 \<longrightarrow>
                   seat_value (seat_field_of (or_else (travel_class cur) ''ECONOMY'')) f \<noteq> None))
            \<longrightarrow> (\<forall>f \<in> set (flights d2). seats_in_sync f))"
proof (intro conjI impI)
  assume a: "distinct (map flight_id (flights d)) \<and> create_booking e d req = Some (r, d')"
  then have ids: "distinct (map flight_id (flights d))"
    and run: "create_booking e d req = Some (r, d')" by simp_all
  from create_booking_cases[OF run]
  consider (early) "d' = d"
    | (late) depRef ci departureFlight returnFlight where
        "missing_fields req = []" "departureFlightId req = Some depRef"
        "customerInfo req = Some ci"
        "resolve_flight (flights d) depRef = Some departureFlight"
        "resolve_return (flights d) req = Inr returnFlight"
        "\<not> seats_lt (seat_value (seat_field_of (or_else (seatClass ci) ''ECONOMY''))
              departureFlight) (int (length (passengers req)))"
        "\<forall>rf. isRoundTrip req \<and> returnFlight = Some rf \<longrightarrow>
           \<not> seats_lt (seat_value (seat_field_of (or_else (seatClass ci) ''ECONOMY'')) rf)
               (int (length (passengers req)))"
    by blast
  then show "\<forall>f \<in> set (flights d'). seats_in_sync f"
  proof cases
    case early
    with assms show ?thesis by simp
  next
    case late
    let ?fld = "seat_field_of (or_else (seatClass ci) ''ECONOMY'')"
    let ?n = "int (length (passengers req))"
    from late(1) have ps: "passengers req \<noteq> []"
      by (auto simp: missing_fields_def split: if_splits)
    have fl: "flights d' =
        reserve_seats req (or_else (seatClass ci) ''ECONOMY'') departureFlight returnFlight
          (flights d)"
      using run late by (intro create_booking_flights) auto
    have dep_in: "departureFlight \<in> set (flights d)"
      using late(4) by (rule resolve_flight_in_table)
    have dep: "\<forall>f \<in> set (flights d). flight_id f = flight_id departureFlight
                 \<longrightarrow> seat_value ?fld f \<noteq> None"
      using same_id_same_row[OF ids _ dep_in] checked_seat_is_counted[OF late(6) ps]
      by blast
    let ?fs1 = "decrement_seats ?fld ?n (flight_id departureFlight) (flights d)"
    have s1: "\<forall>f \<in> set ?fs1. seats_in_sync f"
      using assms dep by (rule decrement_seats_in_sync)
    show ?thesis
    proof (cases "isRoundTrip req \<and> returnFlight \<noteq> None")
      case False
      then have "flights d' = ?fs1"
        using fl by (auto simp: reserve_seats_def Let_def split: option.splits)
      with s1 show ?thesis by simp
    next
      case True
      then obtain rf where rf: "returnFlight = Some rf" and rt: "isRoundTrip req"
        by auto
      have ret_in: "rf \<in> set (flights d)"
        using late(5) rf by (auto dest: resolve_return_in_table)
      from late(7) rf rt
      have "\<not> seats_lt (seat_value ?fld rf) ?n" by simp
      from checked_seat_is_counted[OF this ps] same_id_same_row[OF ids _ ret_in]
      have "\<forall>f \<in> set (flights d). flight_id f = flight_id rf \<longrightarrow> seat_value ?fld f \<noteq> None"
        by blast
      then have "\<forall>f \<in> set ?fs1. flight_id f = flight_id rf \<longrightarrow> seat_value ?fld f \<noteq> None"
        by (rule decrement_seats_counted)
      with s1 have "\<forall>f \<in> set (decrement_seats ?fld ?n (flight_id rf) ?fs1). seats_in_sync f"
        by (rule decrement_seats_in_sync)
      moreover have "flights d' = decrement_seats ?fld ?n (flight_id rf) ?fs1"
        using fl rf rt by (simp add: reserve_seats_def Let_def)
      ultimately show ?thesis by simp
    qed
  qed
next
  assume b: "update_payment_status d bid st = (r2, d2)
          \<and> (\<forall>cur. find (\<lambda>b. booking_id b = bid) (bookings d) = Some cur \<longrightarrow>
                (\<forall>f \<in> set (flights d). legs_served cur f \<noteq> 0 \<longrightarrow>
                   seat_value (seat_field_of (or_else (travel_class cur) ''ECONOMY'')) f \<noteq> None))"
  show "\<forall>f \<in> set (flights d2). seats_in_sync f"
  proof (cases "st = [] \<or> find (\<lambda>b. booking_id b = bid) (bookings d) = None")
    case True
    with b have "d2 = d"
      by (auto simp: update_payment_status_def split: if_splits)
    with assms show ?thesis by simp
  next
    case False
    then obtain cur where cur: "find (\<lambda>b. booking_id b = bid) (bookings d) = Some cur"
      and st: "st \<noteq> []" by auto
    from b have run: "update_payment_status d bid st = (r2, d2)" by simp
    let ?fld = "seat_field_of (or_else (travel_class cur) ''ECONOMY'')"
    let ?n = "passenger_count bid (booking_details d)"
    from b cur
    have counted: "\<forall>f \<in> set (flights d). legs_served cur f \<noteq> 0 \<longrightarrow> seat_value ?fld f \<noteq> None"
      by simp
    have row: "seats_in_sync (add_seats ?fld (?n * legs_served cur f) f)"
      if "f \<in> set (flights d)" for f
    proof (cases "legs_served cur f = 0")
      case True
      with assms that show ?thesis by (simp add: add_seats_zero)
    next
      case False
      with counted assms that show ?thesis by (simp add: add_seats_in_sync)
    qed
    from update_payment_status_flights(2)[OF cur st run] row assms
    show ?thesis by (auto simp: restore_seats_rows)
  qed
qed

section \<open>Properties of the promotions\<close>

lemma increment_used_count_row:
  assumes "distinct (map promo_id ps)" and "promo \<in> set ps"
  shows "increment_used_count (promo_id promo) ps =
           map (\<lambda>q. if q = promo then q\<lparr>used_count := used_count q + 1\<rparr> else q) ps"
proof -
  have "promo_id q = promo_id promo \<longleftrightarrow> q = promo" if "q \<in> set ps" for q
    using assms that by (meson distinct_map inj_onD)
  then show ?thesis
    by (simp add: increment_used_count_def cong: map_cong)
qed

lemma increment_used_count_again:
  assumes "distinct (map promo_id ps)" and "promo \<in> set ps"
  shows "increment_used_count (promo_id promo)
           (map (\<lambda>q. if q = promo then q\<lparr>used_count := used_count q + k\<rparr> else q) ps) =
         map (\<lambda>q. if q = promo then q\<lparr>used_count := used_count q + (k + 1)\<rparr> else q) ps"
proof -
  have "promo_id q = promo_id promo \<longleftrightarrow> q = promo" if "q \<in> set ps" for q
    using assms that by (meson distinct_map inj_onD)
  then show ?thesis
    by (simp add: increment_used_count_def cong: map_cong)
qed

lemma find_code_after_count:
  "find (\<lambda>p. code p = c)
     (map (\<lambda>q. if q = promo then q\<lparr>used_count := used_count q + k\<rparr> else q) ps) =
   map_option (\<lambda>q. if q = promo then q\<lparr>used_count := used_count q + k\<rparr> else q)
     (find (\<lambda>p. code p = c) ps)"
  by (induction ps) auto

lemma find_after_absent: "find P xs = None \<Longrightarrow> find P (xs @ ys) = find P ys"
  by (induction xs) (auto split: if_splits)

lemma count_plus_zero:
  "map (\<lambda>q. if q = promo then q\<lparr>used_count := used_count q + 0\<rparr> else q) ps = ps"
  by (induction ps) auto

lemma find_usable_promo_unique:
  assumes "\<forall>p \<in> set ps. \<forall>q \<in> set ps. code p = code q \<longrightarrow> p = q"
    and "find (\<lambda>p. code p = c) ps = Some promo"
  shows "find_usable_promo day c ps = (if usable_today day promo then Some promo else None)"
proof -
  from assms(2) have promo: "promo \<in> set ps" "code promo = c"
    by (auto dest: find_in_set)
  show ?thesis
  proof (cases "find_usable_promo day c ps")
    case None
    with promo show ?thesis
      by (auto simp: find_usable_promo_def find_None_iff)
  next
    case (Some q)
    then have q: "q \<in> set ps" "code q = c" "usable_today day q"
      by (auto simp: find_usable_promo_def dest: find_in_set)
    with assms(1) promo have "q = promo" by blast
    with Some q show ?thesis by simp
  qed
qed

lemma compute_amount_promotions:
  assumes "\<forall>p \<in> set promos. \<forall>q \<in> set promos. code p = code q \<longrightarrow> p = q"
    and "distinct (map promo_id promos)"
    and "find (\<lambda>p. code p = promoCode req) promos = Some promo"
    and "promoCode req \<noteq> []"
    and "compute_amount e promos req cls departureFlight returnFlight = (amount, ps', promos')"
  shows "promos' =
           map (\<lambda>q. if q = promo
                     then q\<lparr>used_count := used_count q
                            + (if totalAmount req = None \<and> usable_today (today e) promo
                               then 1 else 0)\<rparr>
                     else q) promos"
proof (cases "totalAmount req")
  case (Some t)
  with assms(5) show ?thesis
    by (simp add: compute_amount_def count_plus_zero)
next
  case None
  from assms(3) have promo: "promo \<in> set promos"
    by (auto dest: find_in_set)
  show ?thesis
  proof (cases "usable_today (today e) promo")
    case True
    with None assms(4,5) find_usable_promo_unique[OF assms(1,3), of "today e"]
      increment_used_count_row[OF assms(2) promo]
    show ?thesis
      by (auto simp: compute_amount_def Let_def split: prod.splits)
  next
    case False
    with None assms(4,5) find_usable_promo_unique[OF assms(1,3), of "today e"]
    show ?thesis
      by (auto simp: compute_amount_def Let_def count_plus_zero split: prod.splits)
  qed
qed

text \<open>
  Claim C7, as the code has it. The creation of a booking increments the usage count
  only on the branch that calculates the amount. A booking created with a total of the
  caller and the code \<^verbatim>\<open>WELCOME10\<close> carries the code and leaves the count of the promotion
  at 7; the payment update to \<^verbatim>\<open>paid\<close> makes it 8. There is no increment of the creation
  to which the increment of the payment is added.
\<close>

theorem payment_is_the_only_increment_for_a_given_total:
  "map used_count (promotions promo_db) = [7, 0]
   \<and> map_option fst (create_booking sample_env promo_db
        (priced_request (Some 1500000) ''WELCOME10''))
       = Some (BookingCreated ''AB12CD34EF'' 1500000)
   \<and> map_option (map promo_code \<circ> bookings \<circ> snd) (create_booking sample_env promo_db
        (priced_request (Some 1500000) ''WELCOME10'')) = Some [Some ''WELCOME10'']
   \<and> map_option (map used_count \<circ> promotions \<circ> snd) (create_booking sample_env promo_db
        (priced_request (Some 1500000) ''WELCOME10'')) = Some [7, 0]
   \<and> fst (update_payment_status
         (snd (the (create_booking sample_env promo_db
            (priced_request (Some 1500000) ''WELCOME10''))))
         ''AB12CD34EF'' ''paid'') = PaymentStatusUpdated
   \<and> map used_count (promotions (snd (update_payment_status
         (snd (the (create_booking sample_env promo_db
            (priced_request (Some 1500000) ''WELCOME10''))))
         ''AB12CD34EF'' ''paid''))) = [8, 0]"
proof -
  let ?created = "create_booking sample_env promo_db (priced_request (Some 1500000) ''WELCOME10'')"
  have created:
    "map used_count (promotions promo_db) = [7, 0]"
    "map_option fst ?created = Some (BookingCreated ''AB12CD34EF'' 1500000)"
    "map_option (map promo_code \<circ> bookings \<circ> snd) ?created = Some [Some ''WELCOME10'']"
    "map_option (map used_count \<circ> promotions \<circ> snd) ?created = Some [7, 0]"
    by (simp_all add: priced_request_def sample_defs handler_defs Let_def)
  have paid:
    "fst (update_payment_status (snd (the ?created)) ''AB12CD34EF'' ''paid'')
       = PaymentStatusUpdated"
    "map used_count (promotions (snd (update_payment_status (snd (the ?created))
       ''AB12CD34EF'' ''paid''))) = [8, 0]"
    by (simp_all add: priced_request_def sample_defs handler_defs payment_defs Let_def)
  from created paid show ?thesis by simp
qed

text \<open>
  Claim C7, amended. Let the promotion identifiers be distinct and the promotion codes
  unique, and let a promotion of the table have the code \<open>c\<close>, which is not empty.

  The payment step: for a booking of the store that carries \<open>c\<close> and whose status is not
  \<^verbatim>\<open>paid\<close>, the payment update to \<^verbatim>\<open>paid\<close> succeeds and leaves the promotions table with
  the usage count of that promotion incremented by exactly 1, every other promotion
  unchanged. It adds 1 to whatever count the creation of the booking left.

  Creation and payment together: when booking creation, called with the promo code
  \<open>c\<close>, creates a booking, it has incremented the usage count of the promotion by 1 if
  the caller gave no total and the lookup of the handler finds the promotion (usage
  count below the cap, the day within the two dates), and by 0 otherwise; the payment
  update of the new booking to \<^verbatim>\<open>paid\<close> then succeeds and leaves the count 2 above the
  count before the creation in the first case, and 1 above it otherwise.
\<close>

theorem promo_usage_of_creation_and_payment:
  assumes "distinct (map promo_id (promotions d))"
    and "\<forall>p \<in> set (promotions d). \<forall>q \<in> set (promotions d). code p = code q \<longrightarrow> p = q"
    and "c \<noteq> []"
    and "find (\<lambda>p. code p = c) (promotions d) = Some promo"
  shows "(find (\<lambda>b. booking_id b = bid) (bookings d) = Some cur
          \<and> promo_code cur = Some c \<and> payment_status cur \<noteq> ''paid''
          \<and> update_payment_status d bid ''paid'' = (r, d')
          \<longrightarrow> r = PaymentStatusUpdated
              \<and> promotions d' =
                  map (\<lambda>q. if q = promo then q\<lparr>used_count := used_count q + 1\<rparr> else q)
                    (promotions d))
       \<and> (promoCode req = c
          \<and> create_booking e d req = Some (BookingCreated newId amt, d1)
          \<and> update_payment_status d1 newId ''paid'' = (r2, d2)
          \<longrightarrow> promotions d1 =
                  map (\<lambda>q. if q = promo
                            then q\<lparr>used_count := used_count q
                                   + (if totalAmount req = None \<and> usable_today (today e) promo
                                      then 1 else 0)\<rparr>
                            else q) (promotions d)
              \<and> r2 = PaymentStatusUpdated
              \<and> promotions d2 =
                  map (\<lambda>q. if q = promo
                            then q\<lparr>used_count := used_count q
                                   + (if totalAmount req = None \<and> usable_today (today e) promo
                                      then 2 else 1)\<rparr>
                            else q) (promotions d))"
proof (intro conjI impI)
  have st: "''paid'' \<noteq> []" by simp
  from assms(4) have promo: "promo \<in> set (promotions d)"
    by (auto dest: find_in_set)
  {
    assume a: "find (\<lambda>b. booking_id b = bid) (bookings d) = Some cur
          \<and> promo_code cur = Some c \<and> payment_status cur \<noteq> ''paid''
          \<and> update_payment_status d bid ''paid'' = (r, d')"
    from increment_used_count_row[OF assms(1) promo] assms(3,4) a
    have "confirm_promo_usage cur ''paid'' (promotions d) =
            map (\<lambda>q. if q = promo then q\<lparr>used_count := used_count q + 1\<rparr> else q)
              (promotions d)"
      by (simp add: confirm_promo_usage_def)
    with a update_payment_status_flights(1,3)[OF _ st, of bid d cur r d']
    show "r = PaymentStatusUpdated"
      and "promotions d' =
                  map (\<lambda>q. if q = promo then q\<lparr>used_count := used_count q + 1\<rparr> else q)
                    (promotions d)"
      by simp_all
  }
  {
    assume b: "promoCode req = c
          \<and> create_booking e d req = Some (BookingCreated newId amt, d1)
          \<and> update_payment_status d1 newId ''paid'' = (r2, d2)"
    let ?k = "if totalAmount req = None \<and> usable_today (today e) promo then 1 else (0 :: int)"
    let ?g = "\<lambda>q. if q = promo then q\<lparr>used_count := used_count q + ?k\<rparr> else q"
    from b create_booking_cases[of e d req "BookingCreated newId amt" d1]
    obtain ci departureFlight returnFlight where
      pp: "price_and_persist e d req ci departureFlight returnFlight
             = Some (BookingCreated newId amt, d1)"
      by auto
    from pp obtain gen amount ps' promos' where
      g: "generate_unique_id (bookings d) (id_candidates e) = Some gen"
      and ca: "compute_amount e (promotions d) req (or_else (seatClass ci) ''ECONOMY'')
                 departureFlight returnFlight = (amount, ps', promos')"
      and pb: "persist_booking e
                 (d\<lparr>promotions := promos',
                    flights := reserve_seats req (or_else (seatClass ci) ''ECONOMY'')
                                 departureFlight returnFlight (flights d)\<rparr>)
                 req ci departureFlight returnFlight gen (max 0 amount) ps'
               = (BookingCreated newId amt, d1)"
      by (rule price_and_persist_returns)
    from b assms(3,4) have code: "find (\<lambda>p. code p = promoCode req) (promotions d) = Some promo"
      "promoCode req \<noteq> []"
      by simp_all
    from compute_amount_promotions[OF assms(2,1) code ca]
    have promos': "promos' = map ?g (promotions d)" .
    from persist_booking_frame[OF pb] promos'
    have p1: "promotions d1 = map ?g (promotions d)" by simp
    from persist_booking_created[OF pb] obtain name where
      gen: "newId = gen"
      and rows: "bookings d1 = bookings d @
                   [booking_row e req ci name departureFlight returnFlight gen (max 0 amount)]"
      by auto
    let ?row = "booking_row e req ci name departureFlight returnFlight gen (max 0 amount)"
    from generated_id_is_fresh[OF g]
    have "find (\<lambda>b. booking_id b = gen) (bookings d) = None"
      by (auto simp: find_None_iff)
    with rows gen have found: "find (\<lambda>b. booking_id b = newId) (bookings d1) = Some ?row"
      by (simp add: find_after_absent booking_row_def)
    from b have u: "update_payment_status d1 newId ''paid'' = (r2, d2)" by simp
    from code b have row: "promo_code ?row = Some c" "payment_status ?row \<noteq> ''paid''"
      by (simp_all add: booking_row_def)
    have "find (\<lambda>p. code p = c) (promotions d1) = Some (?g promo)"
      unfolding p1 using assms(4) by (simp only: find_code_after_count option.map)
    moreover have "promo_id (?g promo) = promo_id promo" by simp
    ultimately have "confirm_promo_usage ?row ''paid'' (promotions d1) =
        increment_used_count (promo_id promo) (map ?g (promotions d))"
      using row assms(3) p1 by (simp add: confirm_promo_usage_def)
    also have "\<dots> = map (\<lambda>q. if q = promo then q\<lparr>used_count := used_count q + (?k + 1)\<rparr> else q)
                      (promotions d)"
      by (rule increment_used_count_again[OF assms(1) promo])
    also have "\<dots> = map (\<lambda>q. if q = promo
                            then q\<lparr>used_count := used_count q
                                   + (if totalAmount req = None \<and> usable_today (today e) promo
                                      then 2 else 1)\<rparr>
                            else q) (promotions d)"
      by (rule map_cong) auto
    finally have p2: "confirm_promo_usage ?row ''paid'' (promotions d1) =
        map (\<lambda>q. if q = promo
                  then q\<lparr>used_count := used_count q
                         + (if totalAmount req = None \<and> usable_today (today e) promo
                            then 2 else 1)\<rparr>
                  else q) (promotions d)" .
    from p1 show "promotions d1 =
                  map (\<lambda>q. if q = promo
                            then q\<lparr>used_count := used_count q
                                   + (if totalAmount req = None \<and> usable_today (today e) promo
                                      then 1 else 0)\<rparr>
                            else q) (promotions d)" .
    from update_payment_status_flights(1)[OF found st u]
    show "r2 = PaymentStatusUpdated" .
    from update_payment_status_flights(3)[OF found st u] p2
    show "promotions d2 =
                  map (\<lambda>q. if q = promo
                            then q\<lparr>used_count := used_count q
                                   + (if totalAmount req = None \<and> usable_today (today e) promo
                                      then 2 else 1)\<rparr>
                            else q) (promotions d)"
      by simp
  }
qed

theorem promo_usage_of_creation_and_payment_witness:
  "map used_count (promotions booked_db) = [7, 0]
   \<and> fst (update_payment_status booked_db ''RT12345678'' ''paid'') = PaymentStatusUpdated
   \<and> map used_count (promotions (snd (update_payment_status booked_db ''RT12345678'' ''paid'')))
     = [8, 0]
   \<and> map used_count (promotions promo_db) = [7, 0]
   \<and> map_option fst (create_booking sample_env promo_db (priced_request None ''WELCOME10''))
     = Some (BookingCreated ''AB12CD34EF'' 1800000)
   \<and> map used_count (promotions (snd (the (create_booking sample_env promo_db
         (priced_request None ''WELCOME10''))))) = [8, 0]
   \<and> map used_count (promotions (snd (update_payment_status
         (snd (the (create_booking sample_env promo_db (priced_request None ''WELCOME10''))))
         ''AB12CD34EF'' ''paid''))) = [9, 0]
   \<and> map_option fst (create_booking sample_env promo_db (priced_request (Some 1500000) ''WELCOME10''))
     = Some (BookingCreated ''AB12CD34EF'' 1500000)
   \<and> map used_count (promotions (snd (the (create_booking sample_env promo_db
         (priced_request (Some 1500000) ''WELCOME10''))))) = [7, 0]
   \<and> map used_count (promotions (snd (update_payment_status
         (snd (the (create_booking sample_env promo_db
            (priced_request (Some 1500000) ''WELCOME10''))))
         ''AB12CD34EF'' ''paid''))) = [8, 0]"
proof -
  let ?run = "update_payment_status booked_db ''RT12345678'' ''paid''"
  have found: "find (\<lambda>b. booking_id b = ''RT12345678'') (bookings booked_db) = Some sample_booking"
    by (simp add: booked_db_def sample_booking_def)
  have booking: "promo_code sample_booking = Some ''WELCOME10''"
    "payment_status sample_booking \<noteq> ''paid''"
    by (simp_all add: booked_defs)
  have ne: "''WELCOME10'' \<noteq> []" by simp
  have table: "distinct (map promo_id (promotions booked_db))"
    "\<forall>p \<in> set (promotions booked_db). \<forall>q \<in> set (promotions booked_db). code p = code q \<longrightarrow> p = q"
    "find (\<lambda>p. code p = ''WELCOME10'') (promotions booked_db) = Some welcome10"
    "distinct (map promo_id (promotions promo_db))"
    "\<forall>p \<in> set (promotions promo_db). \<forall>q \<in> set (promotions promo_db). code p = code q \<longrightarrow> p = q"
    "find (\<lambda>p. code p = ''WELCOME10'') (promotions promo_db) = Some welcome10"
    by (simp_all add: booked_defs sample_defs)
  have run: "?run = (fst ?run, snd ?run)" by simp
  have before: "promotions booked_db = [welcome10, fixed200k]"
    "promotions promo_db = [welcome10, fixed200k]" "welcome10 \<noteq> fixed200k"
    "fixed200k \<noteq> welcome10" "used_count welcome10 = 7" "used_count fixed200k = 0"
    "usable_today (today sample_env) welcome10"
    by (simp_all add: booked_defs sample_defs usable_today_def)
  have fields: "totalAmount (priced_request x y) = x" "promoCode (priced_request x y) = y"
    for x y
    by (simp_all add: priced_request_def)
  let ?calc = "create_booking sample_env promo_db (priced_request None ''WELCOME10'')"
  let ?given = "create_booking sample_env promo_db (priced_request (Some 1500000) ''WELCOME10'')"
  have created:
    "map_option fst ?calc = Some (BookingCreated ''AB12CD34EF'' 1800000)"
    "map_option fst ?given = Some (BookingCreated ''AB12CD34EF'' 1500000)"
    by (simp_all add: priced_request_def sample_defs handler_defs percent_of_two_million Let_def)
  let ?paid_calc = "update_payment_status (snd (the ?calc)) ''AB12CD34EF'' ''paid''"
  let ?paid_given = "update_payment_status (snd (the ?given)) ''AB12CD34EF'' ''paid''"
  have paid: "?paid_calc = (fst ?paid_calc, snd ?paid_calc)"
    "?paid_given = (fst ?paid_given, snd ?paid_given)"
    by simp_all
  from promo_usage_of_creation_and_payment[OF table(1,2) ne table(3),
      where bid = "''RT12345678''" and cur = sample_booking and r = "fst ?run" and d' = "snd ?run"
        and req = "priced_request None []"]
    found booking run before
  have step: "fst ?run = PaymentStatusUpdated"
    "map used_count (promotions (snd ?run)) = [8, 0]"
    by simp_all
  from promo_usage_of_creation_and_payment[OF table(4,5) ne table(6),
      where req = "priced_request None ''WELCOME10''" and e = sample_env
        and newId = "''AB12CD34EF''" and amt = 1800000 and ?d1.0 = "snd (the ?calc)"
        and ?r2.0 = "fst ?paid_calc" and ?d2.0 = "snd ?paid_calc"]
    fields run_with_store[OF created(1)] paid(1) before
  have calc: "map used_count (promotions (snd (the ?calc))) = [8, 0]"
    "map used_count (promotions (snd ?paid_calc)) = [9, 0]"
    by simp_all
  from promo_usage_of_creation_and_payment[OF table(4,5) ne table(6),
      where req = "priced_request (Some 1500000) ''WELCOME10''" and e = sample_env
        and newId = "''AB12CD34EF''" and amt = 1500000 and ?d1.0 = "snd (the ?given)"
        and ?r2.0 = "fst ?paid_given" and ?d2.0 = "snd ?paid_given"]
    fields run_with_store[OF created(2)] paid(2) before
  have given: "map used_count (promotions (snd (the ?given))) = [7, 0]"
    "map used_count (promotions (snd ?paid_given)) = [8, 0]"
    by simp_all
  from before step created calc given show ?thesis by simp
qed

text \<open>
  Claim C9, as the code has it. The handler has no response of its own for a promotion
  that is used up: the lookup leaves such a promotion out, and the answer is the 404
  \<^verbatim>\<open>Invalid or inactive promotion code\<close> that an unknown code gets.
\<close>

theorem exhausted_promo_is_not_found:
  "used_count used_up = 1 \<and> usage_limit used_up = Some 1 \<and> status used_up = ''active''
   \<and> validate_promotion (dated_env 1750000000000) validate_db ''LAST1'' = InvalidOrInactiveCode
   \<and> validate_promotion (dated_env 1750000000000) validate_db ''NOSUCHCODE''
       = InvalidOrInactiveCode"
  by (simp add: validate_promotion_def find_active_promo_def validate_db_def used_up_def
      welcome10_def sample_db_def)

text \<open>
  Claim C9, amended. For a code that is not empty, the promotion codes being unique:
  the call answers with the not-found error when no promotion has the code, when the
  promotion is inactive, and also when its usage count has reached its usage cap (or
  it has no cap). Otherwise it answers with the not-yet-valid error when the current
  time is before \<^verbatim>\<open>valid_from\<close>; otherwise with the expired error when the current time
  is after \<^verbatim>\<open>valid_to\<close>; otherwise with the valid response, which carries the code, the
  discount kind, the discount magnitude and the status.
\<close>

theorem validate_promotion_outcomes:
  assumes "c \<noteq> []"
    and "\<forall>p \<in> set (promotions d). \<forall>q \<in> set (promotions d). code p = code q \<longrightarrow> p = q"
  shows "((\<forall>p \<in> set (promotions d). code p \<noteq> c) \<longrightarrow>
            validate_promotion e d c = InvalidOrInactiveCode)
     \<and> (\<forall>p \<in> set (promotions d). code p = c \<longrightarrow>
          (status p = ''inactive'' \<longrightarrow> validate_promotion e d c = InvalidOrInactiveCode)
          \<and> (usage_limit p = None \<longrightarrow> validate_promotion e d c = InvalidOrInactiveCode)
          \<and> (\<forall>l. usage_limit p = Some l \<and> l \<le> used_count p \<longrightarrow>
                validate_promotion e d c = InvalidOrInactiveCode)
          \<and> (\<forall>l. status p \<noteq> ''inactive'' \<and> usage_limit p = Some l \<and> used_count p < l \<longrightarrow>
                validate_promotion e d c =
                  (if date_lt (Some (now_ms e)) (js_date e (valid_from p)) then NotValidYet
                   else if date_lt (js_date e (valid_to p)) (Some (now_ms e)) then HasExpired
                   else ValidPromo (code p) (discount_type p) (discount_value p) (status p))))"
proof -
  have absent: "find_active_promo c (promotions d) = None"
    if "\<forall>p \<in> set (promotions d). code p \<noteq> c"
    using that by (auto simp: find_active_promo_def find_None_iff)
  have only: "find_active_promo c (promotions d) =
      (if status p \<noteq> ''inactive''
          \<and> (case usage_limit p of None \<Rightarrow> False | Some l \<Rightarrow> used_count p < l)
       then Some p else None)"
    if "p \<in> set (promotions d)" "code p = c" for p
  proof (cases "find_active_promo c (promotions d)")
    case None
    with that show ?thesis
      by (auto simp: find_active_promo_def find_None_iff)
  next
    case (Some q)
    then have q: "q \<in> set (promotions d)" "code q = c" "status q \<noteq> ''inactive''"
      "case usage_limit q of None \<Rightarrow> False | Some l \<Rightarrow> used_count q < l"
      by (auto simp: find_active_promo_def dest: find_in_set)
    with assms(2) that have "q = p" by blast
    with Some q show ?thesis by (auto split: option.splits)
  qed
  show ?thesis
    using assms(1) absent only
    by (auto simp: validate_promotion_def Let_def)
qed

theorem validate_promotion_outcomes_witness:
  "validate_promotion (dated_env 1750000000000) validate_db ''WELCOME10''
     = ValidPromo ''WELCOME10'' ''percent'' 10 ''active''
   \<and> validate_promotion (dated_env 1700000000000) validate_db ''WELCOME10'' = NotValidYet
   \<and> validate_promotion (dated_env 1800000000000) validate_db ''WELCOME10'' = HasExpired
   \<and> validate_promotion (dated_env 1750000000000) validate_db ''LAST1'' = InvalidOrInactiveCode
   \<and> validate_promotion (dated_env 1750000000000) validate_db ''SPRING'' = InvalidOrInactiveCode"
proof -
  have uniq: "\<forall>p \<in> set (promotions validate_db). \<forall>q \<in> set (promotions validate_db).
                code p = code q \<longrightarrow> p = q"
    by (simp add: validate_db_def used_up_def welcome10_def)
  have rows: "set (promotions validate_db) = {welcome10, used_up}"
    "code welcome10 = ''WELCOME10''" "code used_up = ''LAST1''"
    "status welcome10 = ''active''" "usage_limit welcome10 = Some 500" "used_count welcome10 = 7"
    "usage_limit used_up = Some 1" "used_count used_up = 1"
    "valid_from welcome10 = Some ''2025-01-01''" "valid_to welcome10 = Some ''2025-12-31''"
    "discount_type welcome10 = ''percent''" "discount_value welcome10 = 10"
    by (auto simp: validate_db_def used_up_def welcome10_def)
  have clock: "now_ms (dated_env t) = t"
    "js_date (dated_env t) (Some ''2025-01-01'') = Some 1735689600000"
    "js_date (dated_env t) (Some ''2025-12-31'') = Some 1767139200000" for t
    by (simp_all add: dated_env_def js_date_def)
  have ne: "''WELCOME10'' \<noteq> []" "''LAST1'' \<noteq> []" "''SPRING'' \<noteq> []" by simp_all
  from validate_promotion_outcomes[OF ne(1) uniq, of "dated_env 1750000000000"]
    validate_promotion_outcomes[OF ne(1) uniq, of "dated_env 1700000000000"]
    validate_promotion_outcomes[OF ne(1) uniq, of "dated_env 1800000000000"]
    validate_promotion_outcomes[OF ne(2) uniq, of "dated_env 1750000000000"]
    validate_promotion_outcomes[OF ne(3) uniq, of "dated_env 1750000000000"]
  show ?thesis
    by (simp add: rows clock date_lt_def)
qed

section \<open>Booking creation returns\<close>

text \<open>
  The only loop of the handlers that may not end is the identifier loop: as soon as one
  of the tokens drawn is the identifier of no booking, booking creation answers.
\<close>

lemma create_booking_returns:
  assumes "\<exists>c \<in> set (id_candidates e). \<forall>b \<in> set (bookings d). booking_id b \<noteq> c"
  shows "\<exists>r d'. create_booking e d req = Some (r, d')"
proof -
  from assms have "generate_unique_id (bookings d) (id_candidates e) \<noteq> None"
    by (auto simp: generate_unique_id_def find_None_iff)
  then obtain bid where g: "generate_unique_id (bookings d) (id_candidates e) = Some bid"
    by auto
  have pp: "\<exists>r d'. price_and_persist e d req ci f rf = Some (r, d')" for ci f rf
  proof -
    obtain amount ps' promos' where
      "compute_amount e (promotions d) req (or_else (seatClass ci) ''ECONOMY'') f rf
         = (amount, ps', promos')"
      by (metis prod_cases3)
    from price_and_persist_runs[OF g this] show ?thesis
      by (metis surj_pair)
  qed
  have br: "\<exists>r d'. book_resolved e d req ci f rf = Some (r, d')" for ci f rf
    using pp[of ci f rf] by (auto simp: book_resolved_def Let_def split: option.splits)
  show ?thesis
    using br
    by (auto simp: create_booking_def split: option.splits sum.splits)
qed

end
